theory Spec2Isabelle
  imports Complex_Main "HOL-Library.Word"
begin

section \<open>Shared data types (include/llama\_core.hpp, as declared in ai\_core.hpp)\<close>

text \<open>
  Machine integers: \<open>uint64_t\<close> and \<open>size_t\<close> (LP64) are \<open>64 word\<close>, so \<open>+=\<close>,
  \<open>-=\<close>, \<open>++\<close> and \<open>--\<close> wrap as in the source. \<open>int\<close> values that are
  only compared are HOL integers, \<open>float\<close> values are reals. A
  \<open>steady_clock::time_point\<close> is its tick count in nanoseconds, a HOL integer (the
  64-bit count does not overflow in 292 years). A nullable raw pointer to an engine object is an
  \<open>option\<close> of an opaque handle; \<open>None\<close> is \<open>nullptr\<close>.

  Names are the source's. A data member loses its trailing underscore
  (\<open>all_contexts\<close> is \<open>all_contexts_\<close>), and a name that is taken gets a prefix:
  \<open>pool_model\<close> and \<open>pool_config\<close> are \<open>model_\<close> and \<open>config_\<close> of the pool,
  \<open>context_ptr\<close> is \<open>context\<close> of an entry, \<open>cfg_seed\<close> is \<open>seed\<close> of
  \<open>ModelConfig\<close>, \<open>token_text\<close> is \<open>text\<close> of \<open>StreamToken\<close>.
\<close>

type_synonym addr = nat
type_synonym time_point = int
type_synonym handle = "nat option"

record ModelConfig =
  model_path :: string
  n_ctx :: int
  n_batch :: int
  n_threads :: int
  n_gpu_layers :: int
  cfg_seed :: int
  use_mmap :: bool
  use_mlock :: bool
  embeddings :: bool
  memory_f16 :: bool

record ChatMessage =
  role :: string
  content :: string

record GenerationParams =
  max_tokens :: int
  temperature :: real
  top_p :: real
  top_k :: int
  repeat_penalty :: real
  repeat_last_n :: int
  seed :: int
  stream :: bool
  stop_sequences :: "string list"

text \<open>The default member initializers of the two parameter structs.\<close>

definition default_config :: "string \<Rightarrow> ModelConfig" where
  "default_config path =
     \<lparr>model_path = path, n_ctx = 2048, n_batch = 512, n_threads = 4, n_gpu_layers = 0,
      cfg_seed = - 1, use_mmap = True, use_mlock = False, embeddings = False,
      memory_f16 = True\<rparr>"

definition default_params :: GenerationParams where
  "default_params =
     \<lparr>max_tokens = 100, temperature = 8 / 10, top_p = 9 / 10, top_k = 40,
      repeat_penalty = 1, repeat_last_n = 64, seed = - 1, stream = False,
      stop_sequences = []\<rparr>"

section \<open>PerformanceMetrics and PerformanceSnapshot\<close>

text \<open>
  The atomics of \<open>PerformanceMetrics\<close> are plain values here, so the snapshot struct
  (the same seven fields, copied by \<open>GetMetrics\<close>) has the same record type.
\<close>

record PerformanceMetrics =
  total_requests :: "64 word"
  total_tokens_generated :: "64 word"
  total_generation_time_ms :: "64 word"
  memory_usage_bytes :: "64 word"
  peak_memory_bytes :: "64 word"
  active_contexts :: "32 word"
  pool_size :: "32 word"

type_synonym PerformanceSnapshot = PerformanceMetrics

text \<open>
  \<open>double\<close> arithmetic is not interpreted: the conversion from \<open>uint64_t\<close>, the
  division, the multiplication and the two literals are parameters. A division is
  checked on the integer divisor before its conversion (a \<open>uint64_t\<close> converts to
  \<open>0.0\<close> only when it is \<open>0\<close>), and a zero divisor is the error value.
\<close>

datatype arith_error = DivisionByZero

record 'd double_arith =
  of_uint64 :: "64 word \<Rightarrow> 'd"
  fdiv :: "'d \<Rightarrow> 'd \<Rightarrow> 'd"
  fmul :: "'d \<Rightarrow> 'd \<Rightarrow> 'd"
  lit_0 :: 'd
  lit_1000 :: 'd

definition checked_fdiv :: "'d double_arith \<Rightarrow> 'd \<Rightarrow> 64 word \<Rightarrow> arith_error + 'd" where
  "checked_fdiv D a b =
     (if b = 0 then Inl DivisionByZero else Inr (fdiv D a (of_uint64 D b)))"

definition Metrics_GetAverageTokensPerSecond ::
  "'d double_arith \<Rightarrow> PerformanceMetrics \<Rightarrow> arith_error + 'd" where
  "Metrics_GetAverageTokensPerSecond D m =
     (let requests = total_requests m;
          time_ms = total_generation_time_ms m
      in if 0 < requests \<and> 0 < time_ms
         then (case checked_fdiv D (of_uint64 D (total_tokens_generated m)) time_ms of
                 Inl e \<Rightarrow> Inl e
               | Inr q \<Rightarrow> Inr (fmul D q (lit_1000 D)))
         else Inr (lit_0 D))"

definition Metrics_GetAverageLatencyMs ::
  "'d double_arith \<Rightarrow> PerformanceMetrics \<Rightarrow> arith_error + 'd" where
  "Metrics_GetAverageLatencyMs D m =
     (let requests = total_requests m
      in if 0 < requests
         then checked_fdiv D (of_uint64 D (total_generation_time_ms m)) requests
         else Inr (lit_0 D))"

definition Snapshot_GetAverageTokensPerSecond ::
  "'d double_arith \<Rightarrow> PerformanceSnapshot \<Rightarrow> arith_error + 'd" where
  "Snapshot_GetAverageTokensPerSecond D s =
     (if 0 < total_requests s \<and> 0 < total_generation_time_ms s
      then (case checked_fdiv D (of_uint64 D (total_tokens_generated s))
                   (total_generation_time_ms s) of
              Inl e \<Rightarrow> Inl e
            | Inr q \<Rightarrow> Inr (fmul D q (lit_1000 D)))
      else Inr (lit_0 D))"

definition Snapshot_GetAverageLatencyMs ::
  "'d double_arith \<Rightarrow> PerformanceSnapshot \<Rightarrow> arith_error + 'd" where
  "Snapshot_GetAverageLatencyMs D s =
     (if 0 < total_requests s
      then checked_fdiv D (of_uint64 D (total_generation_time_ms s)) (total_requests s)
      else Inr (lit_0 D))"

definition Metrics_Reset :: "PerformanceMetrics \<Rightarrow> PerformanceMetrics" where
  "Metrics_Reset m =
     m\<lparr>total_requests := 0, total_tokens_generated := 0, total_generation_time_ms := 0,
       memory_usage_bytes := 0, peak_memory_bytes := 0, active_contexts := 0,
       pool_size := 0\<rparr>"

section \<open>ContextPoolEntry and ContextPool\<close>

text \<open>
  A \<open>ContextPoolEntry\<close> lives on the heap. The pool's \<open>all_contexts\<close> holds
  owning pointers and \<open>available_contexts\<close> raw pointers to the same objects, and
  \<open>AcquireContext\<close> writes through the raw pointer, so the objects are kept in an
  explicit store \<open>heap\<close> from addresses to entries; both collections are lists of
  addresses. A \<open>unique_ptr\<close> handed to a caller is the address, \<open>None\<close> when null.
  A cell of the store that holds no entry reads as a freshly constructed one.
  \<open>destroyed\<close> records, in order, the entries of the pool whose destructor has
  run (it frees the engine context and the sampler).
\<close>

record ContextPoolEntry =
  context_ptr :: handle
  sampler :: handle
  last_used :: time_point
  in_use :: bool
  usage_count :: "64 word"

record ContextPool =
  heap :: "addr \<Rightarrow> ContextPoolEntry"
  available_contexts :: "addr list"
  all_contexts :: "addr list"
  pool_model :: handle
  pool_config :: ModelConfig
  max_pool_size :: nat
  context_ttl :: int
  destroyed :: "addr list"

definition minutes :: "int \<Rightarrow> int" where
  "minutes n = n * 60 * 1000000000"

definition ContextPoolEntry_ctor :: "time_point \<Rightarrow> ContextPoolEntry" where
  "ContextPoolEntry_ctor now =
     \<lparr>context_ptr = None, sampler = None, last_used = now, in_use = False, usage_count = 0\<rparr>"

definition ContextPool_ctor :: "handle \<Rightarrow> ModelConfig \<Rightarrow> nat \<Rightarrow> ContextPool" where
  "ContextPool_ctor model config max_size =
     \<lparr>heap = (\<lambda>_. ContextPoolEntry_ctor 0), available_contexts = [], all_contexts = [],
      pool_model = model, pool_config = config, max_pool_size = max_size,
      context_ttl = minutes 30, destroyed = []\<rparr>"

text \<open>
  What the allocator and the engine answer when \<open>CreateNewContext\<close> runs: the address
  \<open>make_unique\<close> returns, the results of \<open>llama_init_from_model\<close> and of
  \<open>llama_sampler_chain_init\<close>, and the clock read by the entry's constructor.
\<close>

record create_env =
  new_addr :: addr
  init_context :: handle
  init_sampler :: handle
  ctor_time :: time_point

definition CreateNewContext :: "create_env \<Rightarrow> ContextPool \<Rightarrow> addr option \<times> ContextPool" where
  "CreateNewContext env p =
     (if pool_model p = None then (None, p)
      else case init_context env of
        None \<Rightarrow> (None, p)
      | Some c \<Rightarrow>
         (case init_sampler env of
            None \<Rightarrow> (None, p)
          | Some s \<Rightarrow>
             (Some (new_addr env),
              p\<lparr>heap := (heap p)(new_addr env :=
                   (ContextPoolEntry_ctor (ctor_time env))
                     \<lparr>context_ptr := Some c, sampler := Some s, in_use := True,
                      usage_count := 1\<rparr>)\<rparr>)))"

definition acquire_new :: "create_env \<Rightarrow> ContextPool \<Rightarrow> addr option \<times> ContextPool" where
  "acquire_new env p =
     (if length (all_contexts p) < max_pool_size p then CreateNewContext env p
      else (None, p))"

definition AcquireContext ::
  "time_point \<Rightarrow> create_env \<Rightarrow> ContextPool \<Rightarrow> addr option \<times> ContextPool" where
  "AcquireContext now env p =
     (case available_contexts p of
        [] \<Rightarrow> acquire_new env p
      | raw_entry # rest \<Rightarrow>
          (let e = heap p raw_entry;
               p1 = p\<lparr>available_contexts := rest,
                      heap := (heap p)(raw_entry :=
                        e\<lparr>in_use := True, last_used := now,
                          usage_count := usage_count e + 1\<rparr>)\<rparr>
           in if raw_entry \<in> set (all_contexts p1)
              then (Some raw_entry,
                    p1\<lparr>all_contexts := remove1 raw_entry (all_contexts p1)\<rparr>)
              else acquire_new env p1))"

definition ReleaseContext :: "time_point \<Rightarrow> addr option \<Rightarrow> ContextPool \<Rightarrow> ContextPool" where
  "ReleaseContext now entry p =
     (case entry of
        None \<Rightarrow> p
      | Some raw_ptr \<Rightarrow>
          p\<lparr>heap := (heap p)(raw_ptr := (heap p raw_ptr)\<lparr>in_use := False, last_used := now\<rparr>),
            available_contexts := available_contexts p @ [raw_ptr],
            all_contexts := all_contexts p @ [raw_ptr]\<rparr>)"

text \<open>
  The loop of \<open>CleanupExpiredContexts\<close>: the first list is what is left of
  \<open>available_contexts\<close>, the second is \<open>new_queue\<close>. \<open>erase(remove_if(...))\<close> drops
  every owning pointer equal to \<open>entry\<close>, which runs the entry's destructor.
\<close>

fun cleanup_loop :: "time_point \<Rightarrow> addr list \<Rightarrow> addr list \<Rightarrow> ContextPool \<Rightarrow> ContextPool" where
  "cleanup_loop now [] new_queue p = p\<lparr>available_contexts := new_queue\<rparr>"
| "cleanup_loop now (entry # rest) new_queue p =
     (if now - last_used (heap p entry) < context_ttl p
      then cleanup_loop now rest (new_queue @ [entry]) p
      else cleanup_loop now rest new_queue
             (p\<lparr>all_contexts := filter (\<lambda>ptr. ptr \<noteq> entry) (all_contexts p),
                destroyed := destroyed p @ filter (\<lambda>ptr. ptr = entry) (all_contexts p)\<rparr>))"

definition CleanupExpiredContexts :: "time_point \<Rightarrow> ContextPool \<Rightarrow> ContextPool" where
  "CleanupExpiredContexts now p = cleanup_loop now (available_contexts p) [] p"

definition GetPoolSize :: "ContextPool \<Rightarrow> nat" where
  "GetPoolSize p = length (all_contexts p)"

definition GetAvailableCount :: "ContextPool \<Rightarrow> nat" where
  "GetAvailableCount p = length (available_contexts p)"

subsection \<open>A pool together with the entries its callers hold\<close>

text \<open>
  \<open>held\<close> lists the entries callers have acquired and not yet released. A caller
  can release only an entry it holds (it owns the \<open>unique_ptr\<close>), and the allocator
  returns an address that is not the address of a live entry.
\<close>

record pool_world =
  pool :: ContextPool
  held :: "addr list"

datatype pool_op =
    Acquire time_point create_env
  | Release time_point addr
  | Cleanup time_point

fun op_allowed :: "pool_op \<Rightarrow> pool_world \<Rightarrow> bool" where
  "op_allowed (Acquire now env) w =
     (new_addr env \<notin> set (all_contexts (pool w)) \<and> new_addr env \<notin> set (held w))"
| "op_allowed (Release now a) w = (a \<in> set (held w))"
| "op_allowed (Cleanup now) w = True"

fun pool_step :: "pool_op \<Rightarrow> pool_world \<Rightarrow> pool_world" where
  "pool_step (Acquire now env) w =
     (case AcquireContext now env (pool w) of
        (None, p') \<Rightarrow> w\<lparr>pool := p'\<rparr>
      | (Some a, p') \<Rightarrow> w\<lparr>pool := p', held := a # held w\<rparr>)"
| "pool_step (Release now a) w =
     w\<lparr>pool := ReleaseContext now (Some a) (pool w), held := remove1 a (held w)\<rparr>"
| "pool_step (Cleanup now) w = w\<lparr>pool := CleanupExpiredContexts now (pool w)\<rparr>"

fun run_pool :: "pool_op list \<Rightarrow> pool_world \<Rightarrow> pool_world option" where
  "run_pool [] w = Some w"
| "run_pool (x # xs) w = (if op_allowed x w then run_pool xs (pool_step x w) else None)"

definition new_world :: "handle \<Rightarrow> ModelConfig \<Rightarrow> nat \<Rightarrow> pool_world" where
  "new_world model config max_size =
     \<lparr>pool = ContextPool_ctor model config max_size, held = []\<rparr>"

definition outstanding :: "pool_world \<Rightarrow> nat" where
  "outstanding w = length (held w)"

text \<open>
  The drain wait of \<open>UnloadModel\<close>. The pool has its own lock, so other threads
  may acquire and release during the wait, also between the two calls of one poll:
  \<open>observe k\<close> is the pool as \<open>GetPoolSize\<close> finds it and as \<open>GetAvailableCount\<close>
  finds it in poll \<open>k\<close>. The result is \<open>wait_ms\<close> when the loop ends.
\<close>

function drain_wait :: "(nat \<Rightarrow> ContextPool \<times> ContextPool) \<Rightarrow> nat \<Rightarrow> nat" where
  "drain_wait observe wait_ms =
     (if wait_ms < 5000
      then (let total_contexts = GetPoolSize (fst (observe (wait_ms div 100)));
                available = GetAvailableCount (snd (observe (wait_ms div 100)))
            in if total_contexts = available then wait_ms
               else drain_wait observe (wait_ms + 100))
      else wait_ms)"
  by pat_completeness auto
termination
  by (relation "measure (\<lambda>(observe, wait_ms). 5000 - wait_ms)") auto

section \<open>LoadedModel and SimpleModelManager\<close>

text \<open>
  \<open>context_pool\<close> is the pool itself: the \<open>unique_ptr\<close> is null only inside the
  constructor and inside \<open>UnloadModel\<close> just before the model is erased, never in a
  model stored in \<open>models_\<close>. \<open>model_memory_usage_bytes\<close> is the member
  \<open>memory_usage_bytes\<close> of \<open>LoadedModel\<close>. \<open>cleanup_thread_joinable\<close> is
  \<open>cleanup_thread_.joinable()\<close>: the background cleanup thread has been started and
  not joined.
\<close>

record LoadedModel =
  model :: handle
  context_pool :: ContextPool
  config :: ModelConfig
  load_time :: time_point
  last_access :: time_point
  reference_count :: "64 word"
  model_memory_usage_bytes :: "64 word"

record SimpleModelManager =
  models :: "string \<rightharpoonup> LoadedModel"
  backend_initialized :: bool
  metrics :: PerformanceMetrics
  memory_limit_bytes :: "64 word"
  max_context_pool_size :: nat
  background_cleanup_enabled :: bool
  cleanup_thread_joinable :: bool

definition SimpleModelManager_ctor :: "64 word \<Rightarrow> nat \<Rightarrow> SimpleModelManager" where
  "SimpleModelManager_ctor memory_limit_mb max_size =
     \<lparr>models = Map.empty, backend_initialized = False,
      metrics = \<lparr>total_requests = 0, total_tokens_generated = 0,
                 total_generation_time_ms = 0, memory_usage_bytes = 0,
                 peak_memory_bytes = 0, active_contexts = 0, pool_size = 0\<rparr>,
      memory_limit_bytes = memory_limit_mb * 1024 * 1024,
      max_context_pool_size = max_size,
      background_cleanup_enabled = False, cleanup_thread_joinable = False\<rparr>"

text \<open>
  What the engine, the file system and the clock answer during \<open>LoadModel\<close>:
  whether \<open>llama_backend_init\<close> returns without throwing, \<open>filesystem::exists\<close>,
  \<open>llama_model_load_from_file\<close>, \<open>llama_model_n_params\<close>, and the clock read by
  the \<open>LoadedModel\<close> constructor.
\<close>

record load_env =
  backend_init_ok :: bool
  file_exists :: "string \<Rightarrow> bool"
  load_from_file :: "string \<Rightarrow> ModelConfig \<Rightarrow> handle"
  model_n_params :: "nat \<Rightarrow> 64 word"
  load_clock :: time_point

text \<open>
  \<open>LoadModel\<close> returns a \<open>bool\<close>. The model returns which \<open>return\<close> statement
  was taken; \<open>load_success\<close> is the \<open>bool\<close> the source returns there.
\<close>

datatype load_outcome =
    Loaded
  | AlreadyLoaded
  | BackendInitFailed
  | MemoryLimitReached
  | ModelFileNotFound
  | EngineLoadFailed

fun load_success :: "load_outcome \<Rightarrow> bool" where
  "load_success Loaded = True"
| "load_success AlreadyLoaded = True"
| "load_success BackendInitFailed = False"
| "load_success MemoryLimitReached = False"
| "load_success ModelFileNotFound = False"
| "load_success EngineLoadFailed = False"

definition Initialize :: "load_env \<Rightarrow> SimpleModelManager \<Rightarrow> bool \<times> SimpleModelManager" where
  "Initialize env s =
     (if backend_initialized s then (True, s)
      else if backend_init_ok env then (True, s\<lparr>backend_initialized := True\<rparr>)
      else (False, s))"

definition CheckMemoryLimit :: "SimpleModelManager \<Rightarrow> bool" where
  "CheckMemoryLimit s =
     (memory_limit_bytes s = 0 \<or> memory_usage_bytes (metrics s) < memory_limit_bytes s)"

definition EstimateModelMemoryUsage :: "load_env \<Rightarrow> handle \<Rightarrow> 64 word" where
  "EstimateModelMemoryUsage env m =
     (case m of None \<Rightarrow> 0 | Some h \<Rightarrow> model_n_params env h * 2)"

definition LoadModel ::
  "load_env \<Rightarrow> string \<Rightarrow> ModelConfig \<Rightarrow> SimpleModelManager \<Rightarrow> load_outcome \<times> SimpleModelManager" where
  "LoadModel env model_name cfg s =
     (let (init_ok, s1) = (if backend_initialized s then (True, s) else Initialize env s)
      in if \<not> init_ok then (BackendInitFailed, s1)
      else if models s1 model_name \<noteq> None then (AlreadyLoaded, s1)
      else
        let s2 = (if models s1 = Map.empty \<and> \<not> cleanup_thread_joinable s1
                  then s1\<lparr>background_cleanup_enabled := True, cleanup_thread_joinable := True\<rparr>
                  else s1)
        in if \<not> CheckMemoryLimit s2 then (MemoryLimitReached, s2)
        else if \<not> file_exists env (model_path cfg) then (ModelFileNotFound, s2)
        else case load_from_file env (model_path cfg) cfg of
          None \<Rightarrow> (EngineLoadFailed, s2)
        | Some h \<Rightarrow>
            (let model_size = EstimateModelMemoryUsage env (Some h);
                 loaded_model =
                   \<lparr>model = Some h,
                    context_pool = ContextPool_ctor (Some h) cfg (max_context_pool_size s2),
                    config = cfg, load_time = load_clock env, last_access = load_clock env,
                    reference_count = 0, model_memory_usage_bytes = model_size\<rparr>;
                 m1 = (metrics s2)\<lparr>memory_usage_bytes :=
                         memory_usage_bytes (metrics s2) + model_size\<rparr>;
                 m2 = m1\<lparr>peak_memory_bytes :=
                         max (peak_memory_bytes m1) (memory_usage_bytes m1)\<rparr>
             in (Loaded, s2\<lparr>metrics := m2,
                              models := (models s2)(model_name \<mapsto> loaded_model)\<rparr>)))"

definition update_model ::
  "string \<Rightarrow> (LoadedModel \<Rightarrow> LoadedModel) \<Rightarrow> SimpleModelManager \<Rightarrow> SimpleModelManager" where
  "update_model model_name f s =
     (case models s model_name of
        None \<Rightarrow> s
      | Some m \<Rightarrow> s\<lparr>models := (models s)(model_name \<mapsto> f m)\<rparr>)"

text \<open>
  \<open>GetModel\<close> returns the \<open>LoadedModel\<close> the \<open>shared_ptr\<close> points to, as it is
  after the increment; the pointer's deleter is \<open>ReleaseModelReference\<close> on the name.
\<close>

definition GetModel ::
  "time_point \<Rightarrow> string \<Rightarrow> SimpleModelManager \<Rightarrow> LoadedModel option \<times> SimpleModelManager" where
  "GetModel now model_name s =
     (case models s model_name of
        None \<Rightarrow> (None, s)
      | Some m \<Rightarrow>
          (let m' = m\<lparr>reference_count := reference_count m + 1, last_access := now\<rparr>
           in (Some m', s\<lparr>models := (models s)(model_name \<mapsto> m')\<rparr>)))"

definition ReleaseModelReference :: "string \<Rightarrow> SimpleModelManager \<Rightarrow> SimpleModelManager" where
  "ReleaseModelReference model_name s =
     update_model model_name (\<lambda>m. m\<lparr>reference_count := reference_count m - 1\<rparr>) s"

definition IsModelLoaded :: "string \<Rightarrow> SimpleModelManager \<Rightarrow> bool" where
  "IsModelLoaded model_name s = (models s model_name \<noteq> None)"

definition GetLoadedModelCount :: "SimpleModelManager \<Rightarrow> nat" where
  "GetLoadedModelCount s = card (dom (models s))"

text \<open>
  The first loop of \<open>UnloadModel\<close> polls the atomic \<open>reference_count\<close> and sleeps
  100 ms while it is positive. \<open>rc\<close> is the value the current read returns and
  \<open>later k\<close> the value of the read after the \<open>k+1\<close>-th sleep. (Every writer of the
  count takes \<open>models_mutex_\<close>, which \<open>UnloadModel\<close> holds, so in the program
  \<open>later\<close> is constantly \<open>rc\<close>.) The loop may run forever: the result is \<open>None\<close>
  then, and otherwise the number of sleeps.
\<close>

partial_function (option) wait_references :: "64 word \<Rightarrow> (nat \<Rightarrow> 64 word) \<Rightarrow> nat \<Rightarrow> nat option" where
  "wait_references rc later k =
     (if 0 < rc then wait_references (later k) later (Suc k) else Some k)"

text \<open>
  \<open>UnloadModel\<close> returns its \<open>bool\<close>, the time it slept in milliseconds (reference
  wait, then drain wait) and the new state. \<open>context_pool.reset()\<close> and
  \<open>models_.erase\<close> destroy the pool and the model.
\<close>

definition UnloadModel ::
  "(nat \<Rightarrow> 64 word) \<Rightarrow> (nat \<Rightarrow> ContextPool \<times> ContextPool) \<Rightarrow> string \<Rightarrow> SimpleModelManager
     \<Rightarrow> (bool \<times> nat \<times> SimpleModelManager) option" where
  "UnloadModel later observe model_name s =
     (case models s model_name of
        None \<Rightarrow> Some (False, 0, s)
      | Some loaded_model \<Rightarrow>
          (case wait_references (reference_count loaded_model) later 0 of
             None \<Rightarrow> None
           | Some k \<Rightarrow>
               Some (True, 100 * k + drain_wait observe 0,
                     s\<lparr>metrics := (metrics s)\<lparr>memory_usage_bytes :=
                           memory_usage_bytes (metrics s) - model_memory_usage_bytes loaded_model\<rparr>,
                       models := (models s)(model_name := None)\<rparr>)))"

section \<open>Generate, ChatCompletion and GetEmbeddings\<close>

text \<open>
  The inference engine is a collaborator. Its answers are parameters: a call either
  returns or throws a \<open>std::exception\<close> with a message. \<open>llama_tokenize\<close> takes
  the text, the size of the token buffer and \<open>parse_special\<close>; it returns the number
  of tokens, or minus the number needed when the buffer is too small.
  \<open>decode_prompt\<close> is \<open>llama_decode\<close> on the tokens of the text. \<open>sample text i\<close>
  is what the engine answers in iteration \<open>i\<close> of the sampling loop after that
  prompt: the sampled token, whether it ends the generation, the length and bytes
  \<open>llama_token_to_piece\<close> writes, \<open>expf\<close> of the token's logit when the logits are
  there and the token is in range, and the result of \<open>llama_decode\<close> on the token.
  \<open>float\<close> values are carried as reals; the only operation on them is the
  comparison with 1.
\<close>

datatype 'a outcome = Returns 'a | Throws string

record sample_step =
  new_token :: int
  is_eog :: bool
  piece_len :: int
  piece :: string
  token_prob :: "real option"
  decode_result :: int

record engine =
  llama_tokenize :: "string \<Rightarrow> nat \<Rightarrow> bool \<Rightarrow> int outcome"
  decode_prompt :: "string \<Rightarrow> int"
  sample :: "string \<Rightarrow> nat \<Rightarrow> sample_step outcome"
  llama_get_embeddings :: "string \<Rightarrow> real list option"

text \<open>The clock readings of one operation, in the order the source takes them.\<close>

record op_clock =
  t_get_model :: time_point
  t_acquire :: time_point
  t_start :: time_point
  t_end :: time_point
  t_release :: time_point

definition tokenize_prompt :: "engine \<Rightarrow> string \<Rightarrow> bool \<Rightarrow> int outcome" where
  "tokenize_prompt E txt parse_special =
     (case llama_tokenize E txt (length txt + 100) parse_special of
        Throws w \<Rightarrow> Throws w
      | Returns n_tokens \<Rightarrow>
          if n_tokens < 0 then llama_tokenize E txt (nat (- n_tokens)) parse_special
          else Returns n_tokens)"

definition set_pool :: "string \<Rightarrow> ContextPool \<Rightarrow> SimpleModelManager \<Rightarrow> SimpleModelManager" where
  "set_pool model_name p s = update_model model_name (\<lambda>m. m\<lparr>context_pool := p\<rparr>) s"

text \<open>
  The \<open>for\<close> loop of \<open>Generate\<close>, from iteration \<open>i\<close> with the text \<open>result\<close> and
  \<open>tokens_generated\<close> so far.
\<close>

function gen_loop ::
  "(nat \<Rightarrow> sample_step outcome) \<Rightarrow> int \<Rightarrow> int \<Rightarrow> string \<Rightarrow> int \<Rightarrow> (string \<times> int) outcome" where
  "gen_loop step maxt i result tokens_generated =
     (if i < maxt
      then (case step (nat i) of
              Throws w \<Rightarrow> Throws w
            | Returns st \<Rightarrow>
                if is_eog st then Returns (result, tokens_generated)
                else
                  (let result' = (if 0 < piece_len st
                                  then result @ take (nat (piece_len st)) (piece st)
                                  else result);
                       generated' = (if 0 < piece_len st then tokens_generated + 1
                                     else tokens_generated)
                   in if decode_result st \<noteq> 0 then Returns (result', generated')
                      else gen_loop step maxt (i + 1) result' generated'))
      else Returns (result, tokens_generated))"
  by pat_completeness auto
termination
  by (relation "measure (\<lambda>(step, maxt, i, result, tokens_generated). nat (maxt - i))") auto

definition duration_ms :: "time_point \<Rightarrow> time_point \<Rightarrow> int" where
  "duration_ms start_time end_time =
     (if start_time \<le> end_time then (end_time - start_time) div 1000000
      else - ((start_time - end_time) div 1000000))"

definition Generate ::
  "engine \<Rightarrow> op_clock \<Rightarrow> create_env \<Rightarrow> string \<Rightarrow> string \<Rightarrow> GenerationParams
     \<Rightarrow> SimpleModelManager \<Rightarrow> string \<times> SimpleModelManager" where
  "Generate E clk cenv model_name prompt_text gen_params s =
     (case GetModel (t_get_model clk) model_name s of
        (None, s1) \<Rightarrow> (''Error: Model not found: '' @ model_name, s1)
      | (Some m, s1) \<Rightarrow>
         (case AcquireContext (t_acquire clk) cenv (context_pool m) of
            (None, p1) \<Rightarrow>
              (''Error: No available context for model: '' @ model_name,
               ReleaseModelReference model_name (set_pool model_name p1 s1))
          | (Some context_entry, p1) \<Rightarrow>
             (let s2 = (set_pool model_name p1 s1)
                         \<lparr>metrics := (metrics s1)\<lparr>total_requests :=
                                       total_requests (metrics s1) + 1\<rparr>\<rparr>;
                  released = (\<lambda>st. ReleaseModelReference model_name
                                (set_pool model_name
                                   (ReleaseContext (t_release clk) (Some context_entry) p1) st))
              in case tokenize_prompt E prompt_text True of
                   Throws w \<Rightarrow> (''Error: '' @ w, released s2)
                 | Returns n_tokens \<Rightarrow>
                     if n_tokens \<le> 0 then (''Error: Failed to tokenize prompt'', released s2)
                     else if decode_prompt E prompt_text \<noteq> 0
                     then (''Error: Failed to process prompt'', released s2)
                     else (case gen_loop (sample E prompt_text) (max_tokens gen_params) 0 [] 0 of
                             Throws w \<Rightarrow> (''Error: '' @ w, released s2)
                           | Returns (result, tokens_generated) \<Rightarrow>
                               (result,
                                released (s2\<lparr>metrics := (metrics s2)
                                   \<lparr>total_generation_time_ms :=
                                      total_generation_time_ms (metrics s2)
                                        + word_of_int (duration_ms (t_start clk) (t_end clk)),
                                    total_tokens_generated :=
                                      total_tokens_generated (metrics s2)
                                        + word_of_int tokens_generated\<rparr>\<rparr>))))))"

definition newline :: string where
  "newline = [CHR 0x0A]"

text \<open>The \<open>for\<close> loop of \<open>ChatCompletion\<close> over the messages, \<open>acc\<close> being \<open>prompt\<close>.\<close>

fun format_messages :: "string \<Rightarrow> ChatMessage list \<Rightarrow> string" where
  "format_messages acc [] = acc"
| "format_messages acc (message # rest) =
     format_messages
       (if role message = ''system'' then acc @ ''System: '' @ content message @ newline
        else if role message = ''user'' then acc @ ''User: '' @ content message @ newline
        else if role message = ''assistant''
             then acc @ ''Assistant: '' @ content message @ newline
        else acc)
       rest"

definition ChatCompletion ::
  "engine \<Rightarrow> op_clock \<Rightarrow> create_env \<Rightarrow> string \<Rightarrow> ChatMessage list \<Rightarrow> GenerationParams
     \<Rightarrow> SimpleModelManager \<Rightarrow> string \<times> SimpleModelManager" where
  "ChatCompletion E clk cenv model_name messages gen_params s =
     Generate E clk cenv model_name (format_messages [] messages @ ''Assistant: '') gen_params s"

text \<open>
  The prompt as the specification words it: the tagged lines of the messages in order,
  nothing for another role, then the trailing tag.
\<close>

definition tagged_line :: "ChatMessage \<Rightarrow> string" where
  "tagged_line message =
     (if role message = ''system'' then ''System: '' @ content message @ newline
      else if role message = ''user'' then ''User: '' @ content message @ newline
      else if role message = ''assistant'' then ''Assistant: '' @ content message @ newline
      else [])"

definition spec_chat_prompt :: "ChatMessage list \<Rightarrow> string" where
  "spec_chat_prompt messages = concat (map tagged_line messages) @ ''Assistant: ''"

definition GetEmbeddings ::
  "engine \<Rightarrow> op_clock \<Rightarrow> create_env \<Rightarrow> string \<Rightarrow> string \<Rightarrow> SimpleModelManager
     \<Rightarrow> real list \<times> SimpleModelManager" where
  "GetEmbeddings E clk cenv model_name txt s =
     (case GetModel (t_get_model clk) model_name s of
        (None, s1) \<Rightarrow> ([], s1)
      | (Some m, s1) \<Rightarrow>
         (case AcquireContext (t_acquire clk) cenv (context_pool m) of
            (None, p1) \<Rightarrow> ([], ReleaseModelReference model_name (set_pool model_name p1 s1))
          | (Some context_entry, p1) \<Rightarrow>
             (let released = ReleaseModelReference model_name
                               (set_pool model_name
                                  (ReleaseContext (t_release clk) (Some context_entry) p1) s1)
              in case tokenize_prompt E txt False of
                   Throws w \<Rightarrow> ([], released)
                 | Returns n_tokens \<Rightarrow>
                     if n_tokens \<le> 0 then ([], released)
                     else if decode_prompt E txt \<noteq> 0 then ([], released)
                     else (case llama_get_embeddings E txt of
                             None \<Rightarrow> ([], released)
                           | Some result \<Rightarrow> (result, released)))))"

section \<open>StreamingSession\<close>

record StreamToken =
  token_text :: string
  is_final :: bool
  probability :: real
  token_id :: int

record StreamingSession =
  session_id :: string
  model_name :: string
  prompt :: string
  params :: GenerationParams
  token_queue :: "StreamToken list"
  finished :: bool
  error :: bool
  error_message :: string

definition StreamingSession_ctor ::
  "string \<Rightarrow> string \<Rightarrow> string \<Rightarrow> GenerationParams \<Rightarrow> StreamingSession" where
  "StreamingSession_ctor ident model_nm prompt_text gen_params =
     \<lparr>session_id = ident, model_name = model_nm, prompt = prompt_text, params = gen_params,
      token_queue = [], finished = False, error = False, error_message = []\<rparr>"

text \<open>
  How the \<open>while\<close> loop of the generation thread ends: by its condition or the
  end-of-generation \<open>break\<close>, by the \<open>break\<close> after a failed decode, or by an
  exception. \<open>stop_seen n\<close> is what \<open>finished.load()\<close> returns in the loop condition
  when \<open>n_generated\<close> is \<open>n\<close> (\<open>Stop\<close> sets the flag from another thread). The queue
  holds every token pushed so far.
\<close>

datatype loop_exit = Exited | DecodeFailed | Threw string

function stream_loop ::
  "(nat \<Rightarrow> sample_step outcome) \<Rightarrow> (nat \<Rightarrow> bool) \<Rightarrow> int \<Rightarrow> int \<Rightarrow> StreamToken list
     \<Rightarrow> StreamToken list \<times> loop_exit" where
  "stream_loop step stop_seen maxt n_generated q =
     (if n_generated < maxt \<and> \<not> stop_seen (nat n_generated)
      then (case step (nat n_generated) of
              Throws w \<Rightarrow> (q, Threw w)
            | Returns st \<Rightarrow>
                if is_eog st then (q, Exited)
                else
                  (let txt = (if 0 < piece_len st then take (nat (piece_len st)) (piece st)
                              else ''[UNK]'');
                       token_probability =
                         (case token_prob st of
                            None \<Rightarrow> 0
                          | Some v \<Rightarrow> if 1 < v then 1 else v);
                       q' = q @ [\<lparr>token_text = txt, is_final = False,
                                  probability = token_probability,
                                  token_id = new_token st\<rparr>]
                   in if decode_result st \<noteq> 0 then (q', DecodeFailed)
                      else stream_loop step stop_seen maxt (n_generated + 1) q'))
      else (q, Exited))"
  by pat_completeness auto
termination
  by (relation "measure (\<lambda>(step, stop_seen, maxt, n_generated, q). nat (maxt - n_generated))")
    auto

definition final_token :: StreamToken where
  "final_token = \<lparr>token_text = [], is_final = True, probability = 0, token_id = - 1\<rparr>"

text \<open>
  The body of the thread \<open>StartGeneration\<close> starts, run to its end on the singleton
  manager. When an exception leaves the \<open>try\<close> block, unwinding destroys the local
  \<open>context_entry\<close> (the entry's destructor runs) and the \<open>shared_ptr\<close> of the model.
\<close>

definition StartGeneration ::
  "engine \<Rightarrow> (nat \<Rightarrow> bool) \<Rightarrow> op_clock \<Rightarrow> create_env \<Rightarrow> StreamingSession \<Rightarrow> SimpleModelManager
     \<Rightarrow> StreamingSession \<times> SimpleModelManager" where
  "StartGeneration E stop_seen clk cenv sess s =
     (case GetModel (t_get_model clk) (model_name sess) s of
        (None, s1) \<Rightarrow>
          (sess\<lparr>error := True, error_message := ''Model not found: '' @ model_name sess,
                finished := True\<rparr>, s1)
      | (Some m, s1) \<Rightarrow>
         (case AcquireContext (t_acquire clk) cenv (context_pool m) of
            (None, p1) \<Rightarrow>
              (sess\<lparr>error := True, error_message := ''Failed to get context for streaming'',
                    finished := True\<rparr>,
               ReleaseModelReference (model_name sess) (set_pool (model_name sess) p1 s1))
          | (Some context_entry, p1) \<Rightarrow>
             (let s2 = set_pool (model_name sess) p1 s1;
                  released = ReleaseModelReference (model_name sess)
                               (set_pool (model_name sess)
                                  (ReleaseContext (t_release clk) (Some context_entry) p1) s2);
                  unwound = ReleaseModelReference (model_name sess)
                              (set_pool (model_name sess)
                                 (p1\<lparr>destroyed := destroyed p1 @ [context_entry]\<rparr>) s2)
              in case tokenize_prompt E (prompt sess) True of
                   Throws w \<Rightarrow>
                     (sess\<lparr>error := True, error_message := w, finished := True\<rparr>, unwound)
                 | Returns n_tokens \<Rightarrow>
                     if n_tokens \<le> 0
                     then (sess\<lparr>error := True, error_message := ''Failed to tokenize prompt'',
                                finished := True\<rparr>, released)
                     else if decode_prompt E (prompt sess) \<noteq> 0
                     then (sess\<lparr>error := True, error_message := ''Failed to evaluate prompt'',
                                finished := True\<rparr>, released)
                     else (case stream_loop (sample E (prompt sess)) stop_seen
                                  (max_tokens (params sess)) 0 (token_queue sess) of
                             (q, Threw w) \<Rightarrow>
                               (sess\<lparr>token_queue := q, error := True, error_message := w,
                                     finished := True\<rparr>, unwound)
                           | (q, DecodeFailed) \<Rightarrow>
                               (sess\<lparr>token_queue := q @ [final_token], error := True,
                                     error_message := ''Failed to decode token'',
                                     finished := True\<rparr>, released)
                           | (q, Exited) \<Rightarrow>
                               (sess\<lparr>token_queue := q @ [final_token], finished := True\<rparr>,
                                released)))))"

text \<open>
  \<open>GetNextToken\<close> waits until the queue is not empty or the session is finished:
  \<open>None\<close> is a wait that does not end in this state. Otherwise the result is the
  token popped (the call returns \<open>true\<close>) or no token (\<open>false\<close>).
\<close>

definition GetNextToken ::
  "StreamingSession \<Rightarrow> (StreamToken option \<times> StreamingSession) option" where
  "GetNextToken sess =
     (case token_queue sess of
        t # rest \<Rightarrow> Some (Some t, sess\<lparr>token_queue := rest\<rparr>)
      | [] \<Rightarrow> if finished sess then Some (None, sess) else None)"

definition final_count :: "StreamToken list \<Rightarrow> nat" where
  "final_count q = length (filter is_final q)"

section \<open>Reads of the reference count, and example states\<close>

text \<open>
  The values the first loop of \<open>UnloadModel\<close> reads: read 0 is the count when the
  call starts, read \<open>i + 1\<close> is \<open>later i\<close>.
\<close>

fun count_read :: "64 word \<Rightarrow> (nat \<Rightarrow> 64 word) \<Rightarrow> nat \<Rightarrow> 64 word" where
  "count_read rc later 0 = rc"
| "count_read rc later (Suc i) = later i"

text \<open>
  An engine and file system with one model file, \<open>m.gguf\<close>, of 1000000 parameters;
  a manager that has loaded it as \<open>m\<close>; and that manager after two \<open>GetModel\<close>
  calls whose handles are still held.
\<close>

definition example_load_env :: load_env where
  "example_load_env =
     \<lparr>backend_init_ok = True, file_exists = (\<lambda>p. p = ''m.gguf''),
      load_from_file = (\<lambda>p c. if p = ''m.gguf'' then Some 1 else None),
      model_n_params = (\<lambda>h. 1000000), load_clock = 0\<rparr>"

definition example_manager :: "64 word \<Rightarrow> SimpleModelManager" where
  "example_manager limit_mb =
     snd (LoadModel example_load_env ''m'' (default_config ''m.gguf'')
            (SimpleModelManager_ctor limit_mb 10))"

definition two_references :: SimpleModelManager where
  "two_references = snd (GetModel 2 ''m'' (snd (GetModel 1 ''m'' (example_manager 0))))"

text \<open>
  An engine that tokenizes every prompt to 3 tokens, decodes without error and samples
  two tokens before the end-of-generation token; the same engine with a tokenizer that
  throws; clock readings; and a fresh streaming session on a model name.
\<close>

definition example_engine :: engine where
  "example_engine =
     \<lparr>llama_tokenize = (\<lambda>txt size special. Returns 3),
      decode_prompt = (\<lambda>txt. 0),
      sample = (\<lambda>txt i. Returns
         \<lparr>new_token = int i + 10, is_eog = (2 \<le> i), piece_len = 2, piece = ''ab'',
          token_prob = Some (1 / 2), decode_result = 0\<rparr>),
      llama_get_embeddings = (\<lambda>txt. Some [0, 1])\<rparr>"

definition throwing_engine :: engine where
  "throwing_engine = example_engine\<lparr>llama_tokenize := (\<lambda>txt size special. Throws ''bad_alloc'')\<rparr>"

definition example_clock :: op_clock where
  "example_clock = \<lparr>t_get_model = 1, t_acquire = 2, t_start = 3, t_end = 5000003, t_release = 5000004\<rparr>"

definition example_session :: "string \<Rightarrow> StreamingSession" where
  "example_session model_nm =
     StreamingSession_ctor ''stream_1'' model_nm ''hi'' (default_params\<lparr>max_tokens := 5\<rparr>)"

section \<open>Runs of the registry\<close>

text \<open>
  \<open>ResetMetrics\<close> and \<open>SimpleModelManager::Cleanup\<close> (the streaming sessions it
  stops are not part of the registry record). A run applies operations of the registry
  one after the other to a state, each with the answers of its collaborators; it has no
  result when an \<open>UnloadModel\<close> of the run never returns.
\<close>

definition ResetMetrics :: "SimpleModelManager \<Rightarrow> SimpleModelManager" where
  "ResetMetrics s = s\<lparr>metrics := Metrics_Reset (metrics s)\<rparr>"

definition SimpleModelManager_Cleanup :: "SimpleModelManager \<Rightarrow> SimpleModelManager" where
  "SimpleModelManager_Cleanup s =
     ResetMetrics
       (s\<lparr>background_cleanup_enabled := False, cleanup_thread_joinable := False,
          models := Map.empty, backend_initialized := False\<rparr>)"

datatype mgr_op =
    OpLoadModel load_env string ModelConfig
  | OpUnloadModel "nat \<Rightarrow> 64 word" "nat \<Rightarrow> ContextPool \<times> ContextPool" string
  | OpGetModel time_point string
  | OpReleaseModelReference string
  | OpGenerate engine op_clock create_env string string GenerationParams
  | OpChatCompletion engine op_clock create_env string "ChatMessage list" GenerationParams
  | OpGetEmbeddings engine op_clock create_env string string
  | OpStartGeneration engine "nat \<Rightarrow> bool" op_clock create_env StreamingSession
  | OpResetMetrics
  | OpCleanup

fun mgr_step :: "mgr_op \<Rightarrow> SimpleModelManager \<Rightarrow> SimpleModelManager option" where
  "mgr_step (OpLoadModel env name cfg) s = Some (snd (LoadModel env name cfg s))"
| "mgr_step (OpUnloadModel later observe name) s =
     (case UnloadModel later observe name s of
        None \<Rightarrow> None
      | Some (r, slept, s') \<Rightarrow> Some s')"
| "mgr_step (OpGetModel now name) s = Some (snd (GetModel now name s))"
| "mgr_step (OpReleaseModelReference name) s = Some (ReleaseModelReference name s)"
| "mgr_step (OpGenerate E clk cenv name prompt_text gp) s =
     Some (snd (Generate E clk cenv name prompt_text gp s))"
| "mgr_step (OpChatCompletion E clk cenv name messages gp) s =
     Some (snd (ChatCompletion E clk cenv name messages gp s))"
| "mgr_step (OpGetEmbeddings E clk cenv name txt) s =
     Some (snd (GetEmbeddings E clk cenv name txt s))"
| "mgr_step (OpStartGeneration E stop_seen clk cenv sess) s =
     Some (snd (StartGeneration E stop_seen clk cenv sess s))"
| "mgr_step OpResetMetrics s = Some (ResetMetrics s)"
| "mgr_step OpCleanup s = Some (SimpleModelManager_Cleanup s)"

fun run_mgr :: "mgr_op list \<Rightarrow> SimpleModelManager \<Rightarrow> SimpleModelManager option" where
  "run_mgr [] s = Some s"
| "run_mgr (x # xs) s = (case mgr_step x s of None \<Rightarrow> None | Some s' \<Rightarrow> run_mgr xs s')"

text \<open>
  Either nothing is loaded and no memory is tracked, or the backend is initialized and
  the cleanup thread has been started.
\<close>

definition mgr_inv :: "SimpleModelManager \<Rightarrow> bool" where
  "mgr_inv s =
     ((models s = Map.empty \<and> memory_usage_bytes (metrics s) = 0)
      \<or> (backend_initialized s \<and> cleanup_thread_joinable s))"

section \<open>Invariant of a pool and its callers\<close>

text \<open>
  The raw pointers of \<open>available_contexts_\<close> and the owning pointers of
  \<open>all_contexts_\<close> are the same entries, each once, and no caller holds one of them.
\<close>

definition pool_inv :: "pool_world \<Rightarrow> bool" where
  "pool_inv w =
     (distinct (all_contexts (pool w)) \<and> distinct (available_contexts (pool w))
      \<and> set (available_contexts (pool w)) = set (all_contexts (pool w))
      \<and> distinct (held w) \<and> set (held w) \<inter> set (all_contexts (pool w)) = {})"

text \<open>An allocator and engine that succeed, placing the new entry at address \<open>a\<close>.\<close>

definition ok_env :: "addr \<Rightarrow> create_env" where
  "ok_env a = \<lparr>new_addr = a, init_context = Some a, init_sampler = Some a, ctor_time = 0\<rparr>"

section \<open>Properties of the context pool\<close>

lemma cleanup_loop_heap: "heap (cleanup_loop now xs q p) = heap p"
  by (induction xs arbitrary: q p) auto

lemma cleanup_loop_ttl: "context_ttl (cleanup_loop now xs q p) = context_ttl p"
  by (induction xs arbitrary: q p) auto

lemma cleanup_loop_avail: "available_contexts (cleanup_loop now xs q p) =
   q @ filter (\<lambda>a. now - last_used (heap p a) < context_ttl p) xs"
  by (induction xs arbitrary: q p) auto

lemma cleanup_loop_all: "all_contexts (cleanup_loop now xs q p) =
   filter (\<lambda>a. \<not> (a \<in> set xs \<and> context_ttl p \<le> now - last_used (heap p a))) (all_contexts p)"
proof (induction xs arbitrary: q p)
  case Nil
  then show ?case by simp
next
  case (Cons x xs)
  show ?case
    by (auto simp: Cons.IH intro!: filter_cong)
qed

lemma filter_eq_single: "distinct ys \<Longrightarrow> x \<in> set ys \<Longrightarrow> filter (\<lambda>ptr. ptr = x) ys = [x]"
  by (induction ys) (auto simp: filter_empty_conv)

lemma cleanup_loop_destroyed:
  "distinct (all_contexts p) \<Longrightarrow> distinct xs \<Longrightarrow> set xs \<subseteq> set (all_contexts p) \<Longrightarrow>
   destroyed (cleanup_loop now xs q p) =
   destroyed p @ filter (\<lambda>a. context_ttl p \<le> now - last_used (heap p a)) xs"
proof (induction xs arbitrary: q p)
  case Nil
  then show ?case by simp
next
  case (Cons x xs)
  show ?case
  proof (cases "now - last_used (heap p x) < context_ttl p")
    case True
    with Cons.prems show ?thesis by (simp add: Cons.IH)
  next
    case False
    let ?p' = "p\<lparr>all_contexts := filter (\<lambda>ptr. ptr \<noteq> x) (all_contexts p),
                 destroyed := destroyed p @ filter (\<lambda>ptr. ptr = x) (all_contexts p)\<rparr>"
    have one: "filter (\<lambda>ptr. ptr = x) (all_contexts p) = [x]"
      using Cons.prems by (simp add: filter_eq_single)
    have d: "distinct (all_contexts ?p')" and dx: "distinct xs"
      and sub: "set xs \<subseteq> set (all_contexts ?p')"
      using Cons.prems by auto
    from Cons.IH [OF d dx sub] False one show ?thesis by simp
  qed
qed

lemma inv_cleanup: "pool_inv w \<Longrightarrow> pool_inv (pool_step (Cleanup now) w)"
  by (auto simp: pool_inv_def CleanupExpiredContexts_def cleanup_loop_avail cleanup_loop_all)

lemma inv_release: "pool_inv w \<Longrightarrow> a \<in> set (held w) \<Longrightarrow> pool_inv (pool_step (Release now a) w)"
  by (auto simp: pool_inv_def ReleaseContext_def)

lemma inv_acquire: "pool_inv w \<Longrightarrow> op_allowed (Acquire now env) w \<Longrightarrow> pool_inv (pool_step (Acquire now env) w)"
  by (auto simp: pool_inv_def AcquireContext_def acquire_new_def CreateNewContext_def Let_def
       split: list.splits option.splits if_splits prod.splits)

lemma inv_step: "pool_inv w \<Longrightarrow> op_allowed x w \<Longrightarrow> pool_inv (pool_step x w)"
  by (cases x) (simp_all add: inv_cleanup inv_release inv_acquire del: pool_step.simps)

lemma inv_run: "run_pool ops w = Some w' \<Longrightarrow> pool_inv w \<Longrightarrow> pool_inv w'"
proof (induction ops arbitrary: w)
  case Nil
  then show ?case by simp
next
  case (Cons x xs)
  from Cons.prems(1) have ok: "op_allowed x w" and rest: "run_pool xs (pool_step x w) = Some w'"
    by (auto split: if_splits)
  from inv_step [OF Cons.prems(2) ok] rest show ?case
    by (rule Cons.IH [rotated])
qed

lemma inv_new_world: "pool_inv (new_world m c n)"
  by (simp add: pool_inv_def new_world_def ContextPool_ctor_def)

lemma ttl_step: "context_ttl (pool (pool_step x w)) = context_ttl (pool w)"
  by (cases x) (auto simp: AcquireContext_def acquire_new_def CreateNewContext_def Let_def
      ReleaseContext_def CleanupExpiredContexts_def cleanup_loop_ttl
      split: list.splits option.splits prod.splits)

lemma ttl_run: "run_pool ops w = Some w' \<Longrightarrow> context_ttl (pool w') = context_ttl (pool w)"
  by (induction ops arbitrary: w) (auto simp: ttl_step split: if_splits simp del: pool_step.simps)

lemma reachable_inv: "run_pool ops (new_world m c n) = Some w \<Longrightarrow> pool_inv w"
  by (rule inv_run [OF _ inv_new_world])

lemma reachable_ttl: "run_pool ops (new_world m c n) = Some w \<Longrightarrow> context_ttl (pool w) = minutes 30"
  by (simp add: ttl_run new_world_def ContextPool_ctor_def)

text \<open>
  Claim C1 says that the entries acquired and not yet released never number more than
  the configured maximum. In the code they do: \<open>AcquireContext\<close> compares the maximum
  with the size of \<open>all_contexts_\<close>, which holds only the idle entries (an acquired
  entry is moved out of it), so with maximum 1 two acquisitions in a row both succeed
  and two entries are outstanding.
\<close>

theorem acquire_beyond_max_pool_size:
  "\<exists>w. run_pool [Acquire 0 (ok_env 1), Acquire 0 (ok_env 2)]
          (new_world (Some 7) (default_config ''m.gguf'') 1) = Some w
     \<and> max_pool_size (pool w) = 1
     \<and> held w = [2, 1]
     \<and> outstanding w = 2"
proof -
  let ?init = "new_world (Some 7) (default_config ''m.gguf'') 1"
  let ?w = "pool_step (Acquire 0 (ok_env 2)) (pool_step (Acquire 0 (ok_env 1)) ?init)"
  note defs = new_world_def ContextPool_ctor_def AcquireContext_def acquire_new_def
      CreateNewContext_def ok_env_def
  have a1: "op_allowed (Acquire 0 (ok_env 1)) ?init"
    by (simp add: defs)
  have a2: "op_allowed (Acquire 0 (ok_env 2)) (pool_step (Acquire 0 (ok_env 1)) ?init)"
    by (simp add: defs)
  have run: "run_pool [Acquire 0 (ok_env 1), Acquire 0 (ok_env 2)] ?init = Some ?w"
    by (simp only: run_pool.simps a1 a2 if_True)
  have m: "max_pool_size (pool ?w) = 1"
    by (simp add: defs)
  have h: "held ?w = [2, 1]"
    by (simp add: defs)
  have n: "outstanding ?w = 2"
    by (simp add: defs outstanding_def)
  from run m h n show ?thesis
    by (intro exI [of _ ?w] conjI)
qed

text \<open>
  Claim C6: in every state of a pool reached from its constructor by acquisitions,
  releases and cleanups, \<open>GetPoolSize\<close> equals \<open>GetAvailableCount\<close>, also while
  entries are held by callers: a held entry is in neither collection. So the
  quiescence test of the drain wait of \<open>UnloadModel\<close> succeeds at its first poll, and
  the wait sleeps 0 ms, whenever that poll finds such a state.
\<close>

theorem pool_size_equals_available_count:
  assumes "run_pool ops (new_world m c n) = Some w"
  shows "GetPoolSize (pool w) = GetAvailableCount (pool w)
    \<and> set (held w) \<inter> set (all_contexts (pool w)) = {}
    \<and> set (held w) \<inter> set (available_contexts (pool w)) = {}
    \<and> (\<forall>observe. observe 0 = (pool w, pool w) \<longrightarrow> drain_wait observe 0 = 0)"
proof -
  have inv: "pool_inv w" using assms by (rule reachable_inv)
  then have "length (all_contexts (pool w)) = length (available_contexts (pool w))"
    unfolding pool_inv_def by (metis distinct_card)
  then have sz: "GetPoolSize (pool w) = GetAvailableCount (pool w)"
    by (simp add: GetPoolSize_def GetAvailableCount_def)
  moreover have "\<forall>observe. observe 0 = (pool w, pool w) \<longrightarrow> drain_wait observe 0 = 0"
    using sz by simp
  ultimately show ?thesis using inv unfolding pool_inv_def by auto
qed

theorem pool_size_equals_available_count_witness:
  "\<exists>w. run_pool [Acquire 0 (ok_env 1), Acquire 0 (ok_env 2), Release 5 1]
          (new_world (Some 7) (default_config ''m.gguf'') 4) = Some w
     \<and> held w = [2]
     \<and> GetPoolSize (pool w) = 1 \<and> GetAvailableCount (pool w) = 1
     \<and> drain_wait (\<lambda>k. (pool w, pool w)) 0 = 0"
proof -
  let ?init = "new_world (Some 7) (default_config ''m.gguf'') 4"
  let ?w = "pool_step (Release 5 1)
              (pool_step (Acquire 0 (ok_env 2)) (pool_step (Acquire 0 (ok_env 1)) ?init))"
  note defs = new_world_def ContextPool_ctor_def AcquireContext_def acquire_new_def
      CreateNewContext_def ok_env_def ReleaseContext_def
  have a1: "op_allowed (Acquire 0 (ok_env 1)) ?init"
    by (simp add: defs)
  have a2: "op_allowed (Acquire 0 (ok_env 2)) (pool_step (Acquire 0 (ok_env 1)) ?init)"
    by (simp add: defs)
  have a3: "op_allowed (Release 5 1)
              (pool_step (Acquire 0 (ok_env 2)) (pool_step (Acquire 0 (ok_env 1)) ?init))"
    by (simp add: defs)
  have run: "run_pool [Acquire 0 (ok_env 1), Acquire 0 (ok_env 2), Release 5 1] ?init = Some ?w"
    by (simp only: run_pool.simps a1 a2 a3 if_True)
  have h: "held ?w = [2]"
    by (simp add: new_world_def ContextPool_ctor_def AcquireContext_def acquire_new_def
      CreateNewContext_def ok_env_def ReleaseContext_def)
  have a: "GetAvailableCount (pool ?w) = 1"
    by (simp add: new_world_def ContextPool_ctor_def AcquireContext_def acquire_new_def
      CreateNewContext_def ok_env_def ReleaseContext_def GetAvailableCount_def)
  note t = pool_size_equals_available_count [OF run]
  from t have sz: "GetPoolSize (pool ?w) = GetAvailableCount (pool ?w)"
    by (rule conjunct1)
  from t have "\<forall>observe. observe 0 = (pool ?w, pool ?w) \<longrightarrow> drain_wait observe 0 = 0"
    by blast
  then have d: "drain_wait (\<lambda>k. (pool ?w, pool ?w)) 0 = 0"
    by (elim allE [of _ "\<lambda>k. (pool ?w, pool ?w)"] impE) (rule refl)
  from sz a have p: "GetPoolSize (pool ?w) = 1"
    by (simp only:)
  from run h p a d show ?thesis
    by (intro exI [of _ ?w] conjI)
qed

text \<open>
  Claim C8: in every reachable state of a pool, \<open>CleanupExpiredContexts\<close> keeps in
  the available queue and in the owning collection exactly the entries with
  \<open>now - last_used\<close> under 30 minutes, destroys exactly the idle entries with
  \<open>now - last_used\<close> at least 30 minutes, in queue order, and writes to no entry; the
  entries callers hold are in neither collection and stay held.
\<close>

theorem cleanup_removes_exactly_expired:
  assumes "run_pool ops (new_world m c n) = Some w"
  shows "available_contexts (CleanupExpiredContexts now (pool w)) =
           filter (\<lambda>a. now - last_used (heap (pool w) a) < minutes 30)
             (available_contexts (pool w))
    \<and> all_contexts (CleanupExpiredContexts now (pool w)) =
           filter (\<lambda>a. now - last_used (heap (pool w) a) < minutes 30)
             (all_contexts (pool w))
    \<and> destroyed (CleanupExpiredContexts now (pool w)) =
           destroyed (pool w) @
           filter (\<lambda>a. minutes 30 \<le> now - last_used (heap (pool w) a))
             (available_contexts (pool w))
    \<and> heap (CleanupExpiredContexts now (pool w)) = heap (pool w)
    \<and> held (pool_step (Cleanup now) w) = held w
    \<and> set (held w) \<inter> set (available_contexts (pool w)) = {}
    \<and> set (held w) \<inter> set (all_contexts (pool w)) = {}"
proof -
  have inv: "pool_inv w" using assms by (rule reachable_inv)
  have ttl: "context_ttl (pool w) = minutes 30" using assms by (rule reachable_ttl)
  have av: "available_contexts (CleanupExpiredContexts now (pool w)) =
           filter (\<lambda>a. now - last_used (heap (pool w) a) < minutes 30)
             (available_contexts (pool w))"
    by (simp add: CleanupExpiredContexts_def cleanup_loop_avail ttl)
  have "all_contexts (CleanupExpiredContexts now (pool w)) =
     filter (\<lambda>a. \<not> (a \<in> set (available_contexts (pool w)) \<and>
        minutes 30 \<le> now - last_used (heap (pool w) a))) (all_contexts (pool w))"
    by (simp add: CleanupExpiredContexts_def cleanup_loop_all ttl)
  also have "\<dots> = filter (\<lambda>a. now - last_used (heap (pool w) a) < minutes 30)
             (all_contexts (pool w))"
    using inv unfolding pool_inv_def by (intro filter_cong) auto
  finally have al: "all_contexts (CleanupExpiredContexts now (pool w)) =
     filter (\<lambda>a. now - last_used (heap (pool w) a) < minutes 30) (all_contexts (pool w))" .
  have de: "destroyed (CleanupExpiredContexts now (pool w)) =
           destroyed (pool w) @
           filter (\<lambda>a. minutes 30 \<le> now - last_used (heap (pool w) a))
             (available_contexts (pool w))"
    using inv unfolding pool_inv_def CleanupExpiredContexts_def
    by (simp add: cleanup_loop_destroyed ttl)
  have he: "heap (CleanupExpiredContexts now (pool w)) = heap (pool w)"
    by (simp add: CleanupExpiredContexts_def cleanup_loop_heap)
  from av al de he inv show ?thesis
    unfolding pool_inv_def by simp
qed

theorem cleanup_removes_exactly_expired_witness:
  "\<exists>w. run_pool [Acquire 0 (ok_env 1), Acquire 0 (ok_env 2), Acquire 0 (ok_env 3),
                 Release 0 1, Release (minutes 10) 2]
          (new_world (Some 7) (default_config ''m.gguf'') 4) = Some w
     \<and> held w = [3]
     \<and> available_contexts (pool w) = [1, 2]
     \<and> all_contexts (pool w) = [1, 2]
     \<and> available_contexts (CleanupExpiredContexts (minutes 30) (pool w)) = [2]
     \<and> all_contexts (CleanupExpiredContexts (minutes 30) (pool w)) = [2]
     \<and> destroyed (CleanupExpiredContexts (minutes 30) (pool w)) = [1]"
proof -
  let ?init = "new_world (Some 7) (default_config ''m.gguf'') 4"
  let ?w = "pool_step (Release (minutes 10) 2) (pool_step (Release 0 1)
              (pool_step (Acquire 0 (ok_env 3))
              (pool_step (Acquire 0 (ok_env 2)) (pool_step (Acquire 0 (ok_env 1)) ?init))))"
  note defs = new_world_def ContextPool_ctor_def AcquireContext_def acquire_new_def
      CreateNewContext_def ok_env_def ReleaseContext_def minutes_def
  have a1: "op_allowed (Acquire 0 (ok_env 1)) ?init"
    by (simp add: defs)
  have a2: "op_allowed (Acquire 0 (ok_env 2)) (pool_step (Acquire 0 (ok_env 1)) ?init)"
    by (simp add: defs)
  have a3: "op_allowed (Acquire 0 (ok_env 3))
              (pool_step (Acquire 0 (ok_env 2)) (pool_step (Acquire 0 (ok_env 1)) ?init))"
    by (simp add: defs)
  have a4: "op_allowed (Release 0 1) (pool_step (Acquire 0 (ok_env 3))
              (pool_step (Acquire 0 (ok_env 2)) (pool_step (Acquire 0 (ok_env 1)) ?init)))"
    by (simp add: defs)
  have a5: "op_allowed (Release (minutes 10) 2) (pool_step (Release 0 1)
              (pool_step (Acquire 0 (ok_env 3))
              (pool_step (Acquire 0 (ok_env 2)) (pool_step (Acquire 0 (ok_env 1)) ?init))))"
    by (simp add: defs)
  have run: "run_pool [Acquire 0 (ok_env 1), Acquire 0 (ok_env 2), Acquire 0 (ok_env 3),
                 Release 0 1, Release (minutes 10) 2] ?init = Some ?w"
    by (simp only: run_pool.simps a1 a2 a3 a4 a5 if_True)
  have h: "held ?w = [3]"
    by (simp add: defs)
  have av: "available_contexts (pool ?w) = [1, 2]"
    by (simp add: defs)
  have al: "all_contexts (pool ?w) = [1, 2]"
    by (simp add: defs)
  have d0: "destroyed (pool ?w) = []"
    by (simp add: defs)
  have l1: "last_used (heap (pool ?w) 1) = 0"
    by (simp add: defs)
  have l2: "last_used (heap (pool ?w) 2) = minutes 10"
    by (simp add: defs)
  note t = cleanup_removes_exactly_expired [OF run, of "minutes 30"]
  have av': "available_contexts (CleanupExpiredContexts (minutes 30) (pool ?w)) = [2]"
    using t l1 l2 by (simp only: av al d0) (simp add: minutes_def)
  have al': "all_contexts (CleanupExpiredContexts (minutes 30) (pool ?w)) = [2]"
    using t l1 l2 by (simp only: av al d0) (simp add: minutes_def)
  have de': "destroyed (CleanupExpiredContexts (minutes 30) (pool ?w)) = [1]"
    using t l1 l2 by (simp only: av al d0) (simp add: minutes_def)
  from run h av al av' al' de' show ?thesis
    by (intro exI [of _ ?w] conjI)
qed

section \<open>Properties of the metrics\<close>

text \<open>
  Claim C10: the derived averages are total. \<open>GetAverageLatencyMs\<close> is the total
  generation time divided by the number of requests when that number is positive, and
  \<open>0.0\<close> otherwise; \<open>GetAverageTokensPerSecond\<close> is the tokens divided by the time,
  times 1000, when requests and time are both positive, and \<open>0.0\<close> otherwise. Neither
  ever divides by zero (the result is never the error value), for the atomic metrics
  and for the snapshot.
\<close>

theorem averages_total:
  "Metrics_GetAverageLatencyMs D m =
     Inr (if 0 < total_requests m
          then fdiv D (of_uint64 D (total_generation_time_ms m)) (of_uint64 D (total_requests m))
          else lit_0 D)
   \<and> Metrics_GetAverageTokensPerSecond D m =
     Inr (if 0 < total_requests m \<and> 0 < total_generation_time_ms m
          then fmul D (fdiv D (of_uint64 D (total_tokens_generated m))
                 (of_uint64 D (total_generation_time_ms m))) (lit_1000 D)
          else lit_0 D)
   \<and> Snapshot_GetAverageLatencyMs D m =
     Inr (if 0 < total_requests m
          then fdiv D (of_uint64 D (total_generation_time_ms m)) (of_uint64 D (total_requests m))
          else lit_0 D)
   \<and> Snapshot_GetAverageTokensPerSecond D m =
     Inr (if 0 < total_requests m \<and> 0 < total_generation_time_ms m
          then fmul D (fdiv D (of_uint64 D (total_tokens_generated m))
                 (of_uint64 D (total_generation_time_ms m))) (lit_1000 D)
          else lit_0 D)"
  by (auto simp: Metrics_GetAverageLatencyMs_def Metrics_GetAverageTokensPerSecond_def
      Snapshot_GetAverageLatencyMs_def Snapshot_GetAverageTokensPerSecond_def checked_fdiv_def Let_def)

section \<open>Properties of the model registry\<close>

lemmas mgr_defs = example_manager_def example_load_env_def default_config_def
  SimpleModelManager_ctor_def LoadModel_def Initialize_def CheckMemoryLimit_def
  EstimateModelMemoryUsage_def GetModel_def ContextPool_ctor_def

lemma GetModel_increments:
  "models s name = Some m \<Longrightarrow>
     models (snd (GetModel now name s)) name =
       Some (m\<lparr>reference_count := reference_count m + 1, last_access := now\<rparr>)"
  by (simp add: GetModel_def Let_def)

lemma ReleaseModelReference_decrements:
  "models s name = Some m \<Longrightarrow>
     models (ReleaseModelReference name s) name =
       Some (m\<lparr>reference_count := reference_count m - 1\<rparr>)"
  by (simp add: ReleaseModelReference_def update_model_def)

lemma get_then_release_restores_count:
  "models s name = Some m \<Longrightarrow>
     models (ReleaseModelReference name (snd (GetModel now name s))) name =
       Some (m\<lparr>last_access := now\<rparr>)"
  by (simp add: GetModel_def Let_def ReleaseModelReference_def update_model_def)

lemma LoadModel_success_initialized:
  "LoadModel env name cfg s = (r, s1) \<Longrightarrow> load_success r \<Longrightarrow>
     backend_initialized s1 \<and> models s1 name \<noteq> None"
  by (auto simp: LoadModel_def Initialize_def Let_def split: if_splits option.splits prod.splits)

lemma LoadModel_already: 
  "backend_initialized s \<Longrightarrow> models s name \<noteq> None \<Longrightarrow> LoadModel env name cfg s = (AlreadyLoaded, s)"
  by (auto simp: LoadModel_def)

text \<open>
  Claim C7: after a successful \<open>LoadModel\<close> of a name, a second \<open>LoadModel\<close> of
  the same name, with any configuration and any engine answers, returns success on the
  already-loaded branch and leaves the whole state as it was: nothing is reloaded, the
  name is loaded, and the number of loaded models is unchanged.
\<close>

theorem load_twice_idempotent:
  assumes "LoadModel env1 name c1 s = (r1, s1)" and "load_success r1"
  shows "LoadModel env2 name c2 s1 = (AlreadyLoaded, s1)
     \<and> load_success (fst (LoadModel env2 name c2 s1))
     \<and> IsModelLoaded name (snd (LoadModel env2 name c2 s1))
     \<and> models (snd (LoadModel env2 name c2 s1)) = models s1
     \<and> GetLoadedModelCount (snd (LoadModel env2 name c2 s1)) = GetLoadedModelCount s1"
proof -
  from LoadModel_success_initialized [OF assms]
  have i: "backend_initialized s1" and l: "models s1 name \<noteq> None" by simp_all
  from LoadModel_already [OF i l] l show ?thesis
    by (simp add: IsModelLoaded_def)
qed

theorem load_twice_idempotent_witness:
  "load_success (fst (LoadModel example_load_env ''m'' (default_config ''m.gguf'')
      (SimpleModelManager_ctor 0 10)))
   \<and> LoadModel example_load_env ''m'' (default_config ''other.gguf'') (example_manager 0)
       = (AlreadyLoaded, example_manager 0)
   \<and> GetLoadedModelCount (example_manager 0) = 1"
proof -
  let ?s0 = "SimpleModelManager_ctor 0 10"
  let ?c = "default_config ''m.gguf''"
  have e: "LoadModel example_load_env ''m'' ?c ?s0
      = (fst (LoadModel example_load_env ''m'' ?c ?s0), example_manager 0)"
    by (simp add: example_manager_def)
  have ok: "load_success (fst (LoadModel example_load_env ''m'' ?c ?s0))"
    by (simp add: mgr_defs)
  have n: "GetLoadedModelCount (example_manager 0) = 1"
    by (simp add: mgr_defs GetLoadedModelCount_def)
  from load_twice_idempotent [OF e ok, of example_load_env "default_config ''other.gguf''"] ok n
  show ?thesis by simp
qed

text \<open>
  Claim C2 as stated fails: with a limit of 1 MB and nothing loaded, a model whose
  estimated footprint is 2000000 bytes is loaded, and the tracked usage ends over the
  limit. \<open>CheckMemoryLimit\<close> compares the usage before the load with the limit; the
  estimate is computed only after the engine has loaded the file.
\<close>

theorem load_ignores_estimated_footprint:
  "memory_limit_bytes (SimpleModelManager_ctor 1 10) = 1048576
   \<and> memory_usage_bytes (metrics (SimpleModelManager_ctor 1 10)) = 0
   \<and> EstimateModelMemoryUsage example_load_env
        (load_from_file example_load_env ''m.gguf'' (default_config ''m.gguf'')) = 2000000
   \<and> memory_limit_bytes (SimpleModelManager_ctor 1 10)
        < memory_usage_bytes (metrics (SimpleModelManager_ctor 1 10))
          + EstimateModelMemoryUsage example_load_env
              (load_from_file example_load_env ''m.gguf'' (default_config ''m.gguf''))
   \<and> fst (LoadModel example_load_env ''m'' (default_config ''m.gguf'')
        (SimpleModelManager_ctor 1 10)) = Loaded
   \<and> IsModelLoaded ''m'' (example_manager 1)
   \<and> memory_usage_bytes (metrics (example_manager 1)) = 2000000"
  by (simp add: mgr_defs IsModelLoaded_def)

lemma count_read_shift:
  "count_read rc (\<lambda>i. later (k + i)) (Suc i) = count_read (later k) (\<lambda>i. later (Suc k + i)) i"
  by (cases i) simp_all

lemma wait_references_Some:
  assumes "wait_references rc later k = Some j"
  shows "k \<le> j \<and> count_read rc (\<lambda>i. later (k + i)) (j - k) = 0
     \<and> (\<forall>i < j - k. 0 < count_read rc (\<lambda>i. later (k + i)) i)"
proof (rule wait_references.raw_induct
    [of "\<lambda>rc later k j. k \<le> j \<and> count_read rc (\<lambda>i. later (k + i)) (j - k) = 0
           \<and> (\<forall>i < j - k. 0 < count_read rc (\<lambda>i. later (k + i)) i)" rc later k j])
  fix wait :: "64 word \<Rightarrow> (nat \<Rightarrow> 64 word) \<Rightarrow> nat \<Rightarrow> nat option"
    and rc :: "64 word" and later :: "nat \<Rightarrow> 64 word" and k j :: nat
  assume IH: "\<And>rc' l k' y. wait rc' l k' = Some y \<Longrightarrow>
      k' \<le> y \<and> count_read rc' (\<lambda>i. l (k' + i)) (y - k') = 0
      \<and> (\<forall>i < y - k'. 0 < count_read rc' (\<lambda>i. l (k' + i)) i)"
    and eq: "(if 0 < rc then wait (later k) later (Suc k) else Some k) = Some j"
  show "k \<le> j \<and> count_read rc (\<lambda>i. later (k + i)) (j - k) = 0
     \<and> (\<forall>i < j - k. 0 < count_read rc (\<lambda>i. later (k + i)) i)"
  proof (cases "0 < rc")
    case False
    with eq show ?thesis by (simp add: word_greater_zero_iff)
  next
    case True
    with eq have rec: "wait (later k) later (Suc k) = Some j" by simp
    from IH [OF rec] have le: "Suc k \<le> j"
      and z: "count_read (later k) (\<lambda>i. later (Suc k + i)) (j - Suc k) = 0"
      and pos: "\<forall>i < j - Suc k. 0 < count_read (later k) (\<lambda>i. later (Suc k + i)) i"
      by simp_all
    from le have d: "j - k = Suc (j - Suc k)" by simp
    have "count_read rc (\<lambda>i. later (k + i)) (j - k) = 0"
      using z by (simp only: d count_read_shift)
    moreover have "\<forall>i < j - k. 0 < count_read rc (\<lambda>i. later (k + i)) i"
    proof (intro allI impI)
      fix i assume lt: "i < j - k"
      show "0 < count_read rc (\<lambda>i. later (k + i)) i"
      proof (cases i)
        case 0
        with True show ?thesis by simp
      next
        case (Suc i')
        with lt d have "i' < j - Suc k" by simp
        with pos have "0 < count_read (later k) (\<lambda>i. later (Suc k + i)) i'" by simp
        then show ?thesis by (simp only: Suc count_read_shift)
      qed
    qed
    moreover have "k \<le> j" using le by simp
    ultimately show ?thesis by simp
  qed
next
  show "wait_references rc later k = Some j" by fact
qed

lemma wait_references_zero: "wait_references 0 later k = Some k"
  by (subst wait_references.simps) simp

lemma wait_references_const:
  "0 < rc \<Longrightarrow> (\<forall>k. later k = rc) \<Longrightarrow> wait_references rc later k = None"
proof (rule ccontr)
  assume pos: "0 < rc" and c: "\<forall>k. later k = rc" and "wait_references rc later k \<noteq> None"
  then obtain j where "wait_references rc later k = Some j" by auto
  from wait_references_Some [OF this] have "count_read rc (\<lambda>i. later (k + i)) (j - k) = 0"
    by simp
  with c pos show False by (cases "j - k") simp_all
qed


section \<open>Properties of generation and chat completion\<close>

lemmas run_defs = mgr_defs Let_def StartGeneration_def Generate_def GetEmbeddings_def
  AcquireContext_def acquire_new_def CreateNewContext_def ContextPoolEntry_ctor_def
  ReleaseContext_def ok_env_def tokenize_prompt_def example_engine_def throwing_engine_def
  example_clock_def example_session_def default_params_def StreamingSession_ctor_def set_pool_def update_model_def
  ReleaseModelReference_def final_count_def final_token_def

lemma format_messages_concat:
  "format_messages acc messages = acc @ concat (map tagged_line messages)"
  by (induction messages arbitrary: acc) (simp_all add: tagged_line_def)

text \<open>
  Claim C9: for every model name, message list and parameters (and every state, engine
  and clock), \<open>ChatCompletion\<close> is \<open>Generate\<close> on the prompt that concatenates, in
  message order, the line tagged \<open>System: \<close>, \<open>User: \<close> or \<open>Assistant: \<close> of each
  message with that role, nothing for a message with another role, and then the
  trailing \<open>Assistant: \<close>.
\<close>

theorem chat_completion_is_generate:
  "ChatCompletion E clk cenv name messages gen_params s =
     Generate E clk cenv name (spec_chat_prompt messages) gen_params s"
  by (simp add: ChatCompletion_def spec_chat_prompt_def format_messages_concat)

lemma chat_prompt_example:
  "spec_chat_prompt [\<lparr>role = ''system'', content = ''S''\<rparr>, \<lparr>role = ''tool'', content = ''T''\<rparr>,
      \<lparr>role = ''user'', content = ''U''\<rparr>, \<lparr>role = ''assistant'', content = ''A''\<rparr>]
   = ''System: S'' @ newline @ ''User: U'' @ newline @ ''Assistant: A'' @ newline @ ''Assistant: ''"
  by (simp add: spec_chat_prompt_def tagged_line_def)

lemma released_models:
  "models s name = Some m \<Longrightarrow>
   models (ReleaseModelReference name (set_pool name P s)) name
     = Some (m\<lparr>context_pool := P, reference_count := reference_count m - 1\<rparr>)"
  by (simp add: ReleaseModelReference_def set_pool_def update_model_def)

lemma Generate_releases:
  assumes "models s name = Some m"
    and "AcquireContext (t_acquire clk) cenv (context_pool m) = (Some a, p1)"
  shows "\<exists>m'. models (snd (Generate E clk cenv name prompt_text gp s)) name = Some m'
     \<and> context_pool m' = ReleaseContext (t_release clk) (Some a) p1
     \<and> reference_count m' = reference_count m"
  using assms
  by (auto simp: Generate_def GetModel_def Let_def set_pool_def update_model_def
      ReleaseModelReference_def
      split: outcome.splits prod.splits simp del: gen_loop.simps)

lemma GetEmbeddings_releases:
  assumes "models s name = Some m"
    and "AcquireContext (t_acquire clk) cenv (context_pool m) = (Some a, p1)"
  shows "\<exists>m'. models (snd (GetEmbeddings E clk cenv name txt s)) name = Some m'
     \<and> context_pool m' = ReleaseContext (t_release clk) (Some a) p1
     \<and> reference_count m' = reference_count m"
  using assms
  by (auto simp: GetEmbeddings_def GetModel_def Let_def set_pool_def update_model_def
      ReleaseModelReference_def
      split: outcome.splits prod.splits option.splits)

section \<open>Properties of streaming sessions\<close>

lemma GetNextToken_finished:
  "finished sess \<Longrightarrow>
     GetNextToken sess =
       (case token_queue sess of
          [] \<Rightarrow> Some (None, sess)
        | t # rest \<Rightarrow> Some (Some t, sess\<lparr>token_queue := rest\<rparr>))"
  by (simp add: GetNextToken_def split: list.splits)

lemma stream_loop_appends:
  "stream_loop step stop_seen maxt n q = (q', ex) \<Longrightarrow>
     \<exists>ts. q' = q @ ts \<and> final_count ts = 0"
proof (induction step stop_seen maxt n q arbitrary: q' ex rule: stream_loop.induct)
  case (1 step stop_seen maxt n q)
  show ?case
  proof (cases "n < maxt \<and> \<not> stop_seen (nat n)")
    case False
    with "1.prems" show ?thesis by (simp add: final_count_def)
  next
    case True
    show ?thesis
    proof (cases "step (nat n)")
      case (Throws w)
      with True "1.prems" show ?thesis by (simp add: final_count_def)
    next
      case (Returns st)
      show ?thesis
      proof (cases "is_eog st")
        case True
        with \<open>n < maxt \<and> \<not> stop_seen (nat n)\<close> Returns "1.prems" show ?thesis
          by (simp add: final_count_def)
      next
        case False
        let ?tok = "\<lparr>token_text = (if 0 < piece_len st then take (nat (piece_len st)) (piece st) else ''[UNK]''),
                     is_final = False,
                     probability = (case token_prob st of None \<Rightarrow> 0 | Some v \<Rightarrow> if 1 < v then 1 else v),
                     token_id = new_token st\<rparr>"
        show ?thesis
        proof (cases "decode_result st \<noteq> 0")
          case True
          with False \<open>n < maxt \<and> \<not> stop_seen (nat n)\<close> Returns "1.prems"
          have "q' = q @ [?tok]" by (simp add: Let_def)
          then show ?thesis by (simp add: final_count_def)
        next
          case d: False
          with False \<open>n < maxt \<and> \<not> stop_seen (nat n)\<close> Returns "1.prems"
          have rec: "stream_loop step stop_seen maxt (n + 1) (q @ [?tok]) = (q', ex)"
            by (simp add: Let_def)
          from "1.IH" [OF \<open>n < maxt \<and> \<not> stop_seen (nat n)\<close> Returns False refl refl refl _ rec] d
          obtain ts where "q' = (q @ [?tok]) @ ts" and "final_count ts = 0" by auto
          then show ?thesis
            by (intro exI [of _ "?tok # ts"]) (simp add: final_count_def)
        qed
      qed
    qed
  qed
qed


lemma stream_loop_no_throw:
  "(\<forall>k w. step k \<noteq> Throws w) \<Longrightarrow> snd (stream_loop step stop_seen maxt n q) \<noteq> Threw w'"
proof (induction step stop_seen maxt n q rule: stream_loop.induct)
  case (1 step stop_seen maxt n q)
  show ?case
  proof (cases "n < maxt \<and> \<not> stop_seen (nat n)")
    case False
    then show ?thesis by auto
  next
    case True
    show ?thesis
    proof (cases "step (nat n)")
      case (Throws w)
      with "1.prems" show ?thesis by simp
    next
      case (Returns st)
      show ?thesis
      proof (cases "is_eog st \<or> decode_result st \<noteq> 0")
        case True
        with \<open>n < maxt \<and> \<not> stop_seen (nat n)\<close> Returns show ?thesis
          by (auto simp: Let_def)
      next
        case False
        then have e: "\<not> is_eog st" and d: "\<not> decode_result st \<noteq> 0" by simp_all
        from "1.IH" [OF \<open>n < maxt \<and> \<not> stop_seen (nat n)\<close> Returns e refl refl refl d "1.prems"]
        show ?thesis
          using \<open>n < maxt \<and> \<not> stop_seen (nat n)\<close> Returns e d by (simp add: Let_def)
      qed
    qed
  qed
qed

lemma final_count_append [simp]: "final_count (xs @ ys) = final_count xs + final_count ys"
  by (simp add: final_count_def)

lemma final_count_final_token [simp]: "final_count [final_token] = 1"
  by (simp add: final_count_def final_token_def)

lemma final_count_Nil [simp]: "final_count [] = 0"
  by (simp add: final_count_def)

text \<open>
  Claim C3 as stated fails on the error paths: a session on a model that is not loaded,
  and a session whose tokenizer throws, both finish without any token, so without a
  token that has \<open>is_final\<close> set.
\<close>

theorem stream_error_paths_emit_no_final_token:
  "final_count (token_queue (fst (StartGeneration example_engine (\<lambda>n. False) example_clock
      (ok_env 1) (example_session ''absent'') (example_manager 0)))) = 0
   \<and> finished (fst (StartGeneration example_engine (\<lambda>n. False) example_clock
      (ok_env 1) (example_session ''absent'') (example_manager 0)))
   \<and> final_count (token_queue (fst (StartGeneration throwing_engine (\<lambda>n. False) example_clock
      (ok_env 1) (example_session ''m'') (example_manager 0)))) = 0
   \<and> finished (fst (StartGeneration throwing_engine (\<lambda>n. False) example_clock
      (ok_env 1) (example_session ''m'') (example_manager 0)))"
  by (simp add: run_defs)

text \<open>
  Claim C3, amended: the generation task of every streaming session ends with the
  \<open>finished\<close> flag set, having pushed at most one token with \<open>is_final\<close> set and
  nothing after it. When the model is loaded, a context is acquired, the prompt
  tokenizes to at least one token and decodes, and no engine call throws, then however
  the token loop ends (end-of-generation token, maximum count, \<open>Stop\<close>, or a failed
  decode in the loop) exactly one such token is pushed, and it is the last. When the
  model is not loaded, no context is available, the tokenizer throws or yields no
  token, or the prompt does not decode, no token at all is pushed and the error flag is
  set.
\<close>

theorem stream_final_token:
  "finished (fst (StartGeneration E stop_seen clk cenv sess s))
   \<and> (\<exists>ts. token_queue (fst (StartGeneration E stop_seen clk cenv sess s)) = token_queue sess @ ts
          \<and> final_count ts \<le> 1 \<and> final_count (butlast ts) = 0)
   \<and> ((\<exists>m n. models s (model_name sess) = Some m
          \<and> fst (AcquireContext (t_acquire clk) cenv (context_pool m)) \<noteq> None
          \<and> tokenize_prompt E (prompt sess) True = Returns n \<and> 0 < n
          \<and> decode_prompt E (prompt sess) = 0
          \<and> (\<forall>k w. sample E (prompt sess) k \<noteq> Throws w))
        \<longrightarrow> (\<exists>ts. token_queue (fst (StartGeneration E stop_seen clk cenv sess s))
                    = token_queue sess @ ts @ [final_token]
                  \<and> final_count ts = 0))
   \<and> ((models s (model_name sess) = None
        \<or> (\<exists>m. models s (model_name sess) = Some m
              \<and> (fst (AcquireContext (t_acquire clk) cenv (context_pool m)) = None
                  \<or> (\<exists>w. tokenize_prompt E (prompt sess) True = Throws w)
                  \<or> (\<exists>n. tokenize_prompt E (prompt sess) True = Returns n
                        \<and> (n \<le> 0 \<or> decode_prompt E (prompt sess) \<noteq> 0)))))
        \<longrightarrow> token_queue (fst (StartGeneration E stop_seen clk cenv sess s)) = token_queue sess
            \<and> error (fst (StartGeneration E stop_seen clk cenv sess s)))"
proof -
  let ?loop = "stream_loop (sample E (prompt sess)) stop_seen (max_tokens (params sess)) 0
                 (token_queue sess)"
  obtain q ex where sl: "?loop = (q, ex)" by (cases ?loop)
  from stream_loop_appends [OF sl] obtain ts where ts: "q = token_queue sess @ ts"
    and fc: "final_count ts = 0" by blast
  have nt: "(\<forall>k w. sample E (prompt sess) k \<noteq> Throws w) \<Longrightarrow> ex \<noteq> Threw w'" for w'
    using stream_loop_no_throw [of "sample E (prompt sess)" stop_seen "max_tokens (params sess)" 0
        "token_queue sess" w'] sl by simp
  note defs = StartGeneration_def GetModel_def Let_def
  have fin: "finished (fst (StartGeneration E stop_seen clk cenv sess s))"
    using sl by (auto simp: defs split: option.splits prod.splits outcome.splits loop_exit.splits
        simp del: stream_loop.simps)
  have shape: "token_queue (fst (StartGeneration E stop_seen clk cenv sess s)) = token_queue sess
      \<or> token_queue (fst (StartGeneration E stop_seen clk cenv sess s)) = token_queue sess @ ts
      \<or> token_queue (fst (StartGeneration E stop_seen clk cenv sess s)) = token_queue sess @ ts @ [final_token]"
    using sl ts by (auto simp: defs split: option.splits prod.splits outcome.splits loop_exit.splits
        simp del: stream_loop.simps)
  have gen: "\<exists>ts. token_queue (fst (StartGeneration E stop_seen clk cenv sess s)) = token_queue sess @ ts
          \<and> final_count ts \<le> 1 \<and> final_count (butlast ts) = 0"
    using shape
  proof (elim disjE)
    assume "token_queue (fst (StartGeneration E stop_seen clk cenv sess s)) = token_queue sess"
    then show ?thesis by (intro exI [of _ "[]"]) simp
  next
    assume "token_queue (fst (StartGeneration E stop_seen clk cenv sess s)) = token_queue sess @ ts"
    moreover have "final_count (butlast ts) = 0"
      using fc by (cases ts rule: rev_cases) simp_all
    ultimately show ?thesis using fc by (intro exI [of _ ts]) simp
  next
    assume "token_queue (fst (StartGeneration E stop_seen clk cenv sess s))
              = token_queue sess @ ts @ [final_token]"
    then show ?thesis using fc by (intro exI [of _ "ts @ [final_token]"]) (simp add: butlast_append)
  qed
  have full: "(\<exists>m n. models s (model_name sess) = Some m
          \<and> fst (AcquireContext (t_acquire clk) cenv (context_pool m)) \<noteq> None
          \<and> tokenize_prompt E (prompt sess) True = Returns n \<and> 0 < n
          \<and> decode_prompt E (prompt sess) = 0
          \<and> (\<forall>k w. sample E (prompt sess) k \<noteq> Throws w))
        \<longrightarrow> (\<exists>ts. token_queue (fst (StartGeneration E stop_seen clk cenv sess s))
                    = token_queue sess @ ts @ [final_token]
                  \<and> final_count ts = 0)"
  proof (intro impI, elim exE conjE)
    fix m n
    assume m: "models s (model_name sess) = Some m"
      and a: "fst (AcquireContext (t_acquire clk) cenv (context_pool m)) \<noteq> None"
      and t: "tokenize_prompt E (prompt sess) True = Returns n" and n: "0 < n"
      and d: "decode_prompt E (prompt sess) = 0"
      and nothrow: "\<forall>k w. sample E (prompt sess) k \<noteq> Throws w"
    have "ex \<noteq> Threw w'" for w' using nothrow by (rule nt)
    then have "ex = Exited \<or> ex = DecodeFailed" by (cases ex) auto
    with m a t n d sl ts
    have "token_queue (fst (StartGeneration E stop_seen clk cenv sess s))
            = token_queue sess @ ts @ [final_token]"
      by (auto simp: defs split: option.splits prod.splits simp del: stream_loop.simps)
    with fc show "\<exists>ts. token_queue (fst (StartGeneration E stop_seen clk cenv sess s))
                    = token_queue sess @ ts @ [final_token] \<and> final_count ts = 0"
      by blast
  qed
  have early: "(models s (model_name sess) = None
        \<or> (\<exists>m. models s (model_name sess) = Some m
              \<and> (fst (AcquireContext (t_acquire clk) cenv (context_pool m)) = None
                  \<or> (\<exists>w. tokenize_prompt E (prompt sess) True = Throws w)
                  \<or> (\<exists>n. tokenize_prompt E (prompt sess) True = Returns n
                        \<and> (n \<le> 0 \<or> decode_prompt E (prompt sess) \<noteq> 0)))))
        \<longrightarrow> token_queue (fst (StartGeneration E stop_seen clk cenv sess s)) = token_queue sess
            \<and> error (fst (StartGeneration E stop_seen clk cenv sess s))"
    by (auto simp: defs split: option.splits prod.splits outcome.splits simp del: stream_loop.simps)
  from fin gen full early show ?thesis by (intro conjI)
qed


theorem stream_final_token_witness:
  "(\<exists>ts. token_queue (fst (StartGeneration example_engine (\<lambda>n. False) example_clock (ok_env 1)
            (example_session ''m'') (example_manager 0))) = ts @ [final_token]
       \<and> final_count ts = 0)
   \<and> length (token_queue (fst (StartGeneration example_engine (\<lambda>n. False) example_clock (ok_env 1)
            (example_session ''m'') (example_manager 0)))) = 3
   \<and> final_count (token_queue (fst (StartGeneration example_engine (\<lambda>n. False) example_clock (ok_env 1)
            (example_session ''m'') (example_manager 0)))) = 1"
proof -
  let ?R = "StartGeneration example_engine (\<lambda>n. False) example_clock (ok_env 1)
            (example_session ''m'') (example_manager 0)"
  have h: "\<exists>m n. models (example_manager 0) (model_name (example_session ''m'')) = Some m
          \<and> fst (AcquireContext (t_acquire example_clock) (ok_env 1) (context_pool m)) \<noteq> None
          \<and> tokenize_prompt example_engine (prompt (example_session ''m'')) True = Returns n \<and> 0 < n
          \<and> decode_prompt example_engine (prompt (example_session ''m'')) = 0
          \<and> (\<forall>k w. sample example_engine (prompt (example_session ''m'')) k \<noteq> Throws w)"
    by (simp add: run_defs)
  have q0: "token_queue (example_session ''m'') = []"
    by (simp add: example_session_def StreamingSession_ctor_def)
  from stream_final_token [of example_engine "\<lambda>n. False" example_clock "ok_env 1"
      "example_session ''m''" "example_manager 0"] h
  have "\<exists>ts. token_queue (fst ?R) = token_queue (example_session ''m'') @ ts @ [final_token]
          \<and> final_count ts = 0"
    by blast
  then have p1: "\<exists>ts. token_queue (fst ?R) = ts @ [final_token] \<and> final_count ts = 0"
    by (simp only: q0 append_Nil)
  have p2: "length (token_queue (fst ?R)) = 3"
    by (simp add: run_defs)
  have p3: "final_count (token_queue (fst ?R)) = 1"
    by (simp add: run_defs)
  from p1 p2 p3 show ?thesis by (intro conjI)
qed


text \<open>
  Claim C4 says every operation releases the context it acquired on every path, the
  exception path included. \<open>Generate\<close> and \<open>GetEmbeddings\<close> do (the two lemmas
  above: the pool ends as one \<open>ReleaseContext\<close> of the acquired entry applied to the
  pool after the acquisition). The generation task of a streaming session does not
  when an exception is thrown: with a tokenizer that throws, the entry it acquired is
  in neither collection of the pool afterwards, it has been destroyed, whereas
  \<open>Generate\<close> on the same engine puts the entry back.
\<close>

theorem stream_exception_skips_release:
  "(\<exists>m. models (snd (StartGeneration throwing_engine (\<lambda>n. False) example_clock (ok_env 1)
            (example_session ''m'') (example_manager 0))) ''m'' = Some m
       \<and> available_contexts (context_pool m) = [] \<and> all_contexts (context_pool m) = []
       \<and> destroyed (context_pool m) = [1])
   \<and> error (fst (StartGeneration throwing_engine (\<lambda>n. False) example_clock (ok_env 1)
            (example_session ''m'') (example_manager 0)))
   \<and> (\<exists>m. models (snd (Generate throwing_engine example_clock (ok_env 1) ''m'' ''hi''
            (default_params\<lparr>max_tokens := 5\<rparr>) (example_manager 0))) ''m'' = Some m
       \<and> available_contexts (context_pool m) = [1] \<and> all_contexts (context_pool m) = [1]
       \<and> destroyed (context_pool m) = [])"
  by (simp add: run_defs)

section \<open>Properties of the registry in its reachable states\<close>

lemma update_model_fields [simp]:
  "backend_initialized (update_model n f s) = backend_initialized s"
  "cleanup_thread_joinable (update_model n f s) = cleanup_thread_joinable s"
  "metrics (update_model n f s) = metrics s"
  "memory_limit_bytes (update_model n f s) = memory_limit_bytes s"
  by (simp_all add: update_model_def split: option.splits)

lemma update_model_empty [simp]: "models s = Map.empty \<Longrightarrow> update_model n f s = s"
  by (simp add: update_model_def)

lemma set_pool_fields [simp]:
  "backend_initialized (set_pool n p s) = backend_initialized s"
  "cleanup_thread_joinable (set_pool n p s) = cleanup_thread_joinable s"
  "metrics (set_pool n p s) = metrics s"
  by (simp_all add: set_pool_def)

lemma ReleaseModelReference_fields [simp]:
  "backend_initialized (ReleaseModelReference n s) = backend_initialized s"
  "cleanup_thread_joinable (ReleaseModelReference n s) = cleanup_thread_joinable s"
  "metrics (ReleaseModelReference n s) = metrics s"
  by (simp_all add: ReleaseModelReference_def)

lemma GetModel_fields [simp]:
  "backend_initialized (snd (GetModel now n s)) = backend_initialized s"
  "cleanup_thread_joinable (snd (GetModel now n s)) = cleanup_thread_joinable s"
  "metrics (snd (GetModel now n s)) = metrics s"
  by (simp_all add: GetModel_def Let_def split: option.splits)

lemma GetModel_empty: "models s = Map.empty \<Longrightarrow> GetModel now n s = (None, s)"
  by (simp add: GetModel_def)

lemma mgr_inv_same_flags:
  assumes "mgr_inv s"
    and "backend_initialized s' = backend_initialized s"
    and "cleanup_thread_joinable s' = cleanup_thread_joinable s"
    and "memory_usage_bytes (metrics s') = memory_usage_bytes (metrics s)"
    and "models s = Map.empty \<Longrightarrow> models s' = Map.empty"
  shows "mgr_inv s'"
  using assms by (auto simp: mgr_inv_def)

lemma inv_LoadModel: "mgr_inv s \<Longrightarrow> mgr_inv (snd (LoadModel env name cfg s))"
  by (auto simp: mgr_inv_def LoadModel_def Initialize_def Let_def split: if_splits option.splits)

lemma inv_UnloadModel:
  "mgr_inv s \<Longrightarrow> UnloadModel later observe name s = Some (r, slept, s') \<Longrightarrow> mgr_inv s'"
  by (auto simp: mgr_inv_def UnloadModel_def split: option.splits)

lemma inv_GetModel: "mgr_inv s \<Longrightarrow> mgr_inv (snd (GetModel now name s))"
  by (erule mgr_inv_same_flags) (simp_all add: GetModel_empty)

lemma inv_Release: "mgr_inv s \<Longrightarrow> mgr_inv (ReleaseModelReference name s)"
  by (erule mgr_inv_same_flags) (simp_all add: ReleaseModelReference_def)

lemma Generate_flags:
  "backend_initialized (snd (Generate E clk cenv name prompt_text gp s)) = backend_initialized s
   \<and> cleanup_thread_joinable (snd (Generate E clk cenv name prompt_text gp s))
       = cleanup_thread_joinable s
   \<and> memory_usage_bytes (metrics (snd (Generate E clk cenv name prompt_text gp s)))
       = memory_usage_bytes (metrics s)"
proof -
  obtain r s1 where g: "GetModel (t_get_model clk) name s = (r, s1)"
    by (cases "GetModel (t_get_model clk) name s")
  then have s1: "s1 = snd (GetModel (t_get_model clk) name s)" by simp
  have f: "backend_initialized s1 = backend_initialized s"
    "cleanup_thread_joinable s1 = cleanup_thread_joinable s" "metrics s1 = metrics s"
    by (simp_all add: s1)
  show ?thesis
    by (simp add: Generate_def g Let_def f
        split: prod.splits option.splits outcome.splits del: gen_loop.simps)
qed

lemma inv_Generate: "mgr_inv s \<Longrightarrow> mgr_inv (snd (Generate E clk cenv name prompt_text gp s))"
  by (erule mgr_inv_same_flags) (simp_all add: Generate_flags, simp add: Generate_def GetModel_empty)

lemma GetEmbeddings_flags:
  "backend_initialized (snd (GetEmbeddings E clk cenv name txt s)) = backend_initialized s
   \<and> cleanup_thread_joinable (snd (GetEmbeddings E clk cenv name txt s))
       = cleanup_thread_joinable s
   \<and> metrics (snd (GetEmbeddings E clk cenv name txt s)) = metrics s"
proof -
  obtain r s1 where g: "GetModel (t_get_model clk) name s = (r, s1)"
    by (cases "GetModel (t_get_model clk) name s")
  then have s1: "s1 = snd (GetModel (t_get_model clk) name s)" by simp
  have f: "backend_initialized s1 = backend_initialized s"
    "cleanup_thread_joinable s1 = cleanup_thread_joinable s" "metrics s1 = metrics s"
    by (simp_all add: s1)
  show ?thesis
    by (simp add: GetEmbeddings_def g Let_def f
        split: prod.splits option.splits outcome.splits)
qed

lemma inv_GetEmbeddings: "mgr_inv s \<Longrightarrow> mgr_inv (snd (GetEmbeddings E clk cenv name txt s))"
  by (erule mgr_inv_same_flags)
    (simp_all add: GetEmbeddings_flags, simp add: GetEmbeddings_def GetModel_empty)

lemma StartGeneration_flags:
  "backend_initialized (snd (StartGeneration E stop_seen clk cenv sess s)) = backend_initialized s
   \<and> cleanup_thread_joinable (snd (StartGeneration E stop_seen clk cenv sess s))
       = cleanup_thread_joinable s
   \<and> metrics (snd (StartGeneration E stop_seen clk cenv sess s)) = metrics s"
proof -
  obtain r s1 where g: "GetModel (t_get_model clk) (model_name sess) s = (r, s1)"
    by (cases "GetModel (t_get_model clk) (model_name sess) s")
  then have s1: "s1 = snd (GetModel (t_get_model clk) (model_name sess) s)" by simp
  have f: "backend_initialized s1 = backend_initialized s"
    "cleanup_thread_joinable s1 = cleanup_thread_joinable s" "metrics s1 = metrics s"
    by (simp_all add: s1)
  show ?thesis
    by (simp add: StartGeneration_def g Let_def f
        split: prod.splits option.splits outcome.splits loop_exit.splits
        del: stream_loop.simps)
qed

lemma inv_StartGeneration:
  "mgr_inv s \<Longrightarrow> mgr_inv (snd (StartGeneration E stop_seen clk cenv sess s))"
  by (erule mgr_inv_same_flags)
    (simp_all add: StartGeneration_flags, simp add: StartGeneration_def GetModel_empty)

lemma inv_ResetMetrics: "mgr_inv s \<Longrightarrow> mgr_inv (ResetMetrics s)"
  by (auto simp: mgr_inv_def ResetMetrics_def Metrics_Reset_def)

lemma inv_Cleanup: "mgr_inv (SimpleModelManager_Cleanup s)"
  by (simp add: mgr_inv_def SimpleModelManager_Cleanup_def ResetMetrics_def Metrics_Reset_def)

lemma inv_mgr_step: "mgr_inv s \<Longrightarrow> mgr_step x s = Some s' \<Longrightarrow> mgr_inv s'"
proof (cases x)
  case (OpUnloadModel later observe name)
  assume "mgr_inv s" and "mgr_step x s = Some s'"
  then show ?thesis
    using OpUnloadModel by (auto split: option.splits dest: inv_UnloadModel)
qed (auto simp: inv_LoadModel inv_GetModel inv_Release inv_Generate inv_GetEmbeddings
      inv_StartGeneration inv_ResetMetrics inv_Cleanup ChatCompletion_def)

lemma inv_run_mgr: "run_mgr ops s = Some s' \<Longrightarrow> mgr_inv s \<Longrightarrow> mgr_inv s'"
proof (induction ops arbitrary: s)
  case Nil
  then show ?case by simp
next
  case (Cons x xs)
  from Cons.prems(1) obtain s1 where st: "mgr_step x s = Some s1" and rest: "run_mgr xs s1 = Some s'"
    by (auto split: option.splits)
  from inv_mgr_step [OF Cons.prems(2) st] rest show ?case
    by (rule Cons.IH [rotated])
qed

lemma inv_ctor: "mgr_inv (SimpleModelManager_ctor limit_mb max_size)"
  by (simp add: mgr_inv_def SimpleModelManager_ctor_def)

text \<open>
  Claim C2, amended: in every state the registry reaches from its constructor, when the
  limit is non-zero and the tracked usage has already reached it, \<open>LoadModel\<close> of a
  name that is not loaded returns false on the memory-limit branch and leaves the state
  exactly as it was (loaded models, memory counters, background task).
\<close>

theorem load_refused_at_memory_limit:
  assumes "run_mgr ops (SimpleModelManager_ctor limit_mb max_size) = Some s"
    and "memory_limit_bytes s \<noteq> 0"
    and "memory_limit_bytes s \<le> memory_usage_bytes (metrics s)"
    and "models s name = None"
  shows "LoadModel env name cfg s = (MemoryLimitReached, s)
    \<and> \<not> load_success (fst (LoadModel env name cfg s))"
proof -
  have "mgr_inv s" using assms(1) inv_ctor by (rule inv_run_mgr)
  moreover have "memory_usage_bytes (metrics s) \<noteq> 0"
    using assms(2,3) by auto
  ultimately have "backend_initialized s" and "cleanup_thread_joinable s"
    by (auto simp: mgr_inv_def)
  with assms(2,3,4) show ?thesis
    by (auto simp: LoadModel_def CheckMemoryLimit_def Let_def)
qed

theorem load_refused_at_memory_limit_witness:
  "run_mgr [OpLoadModel example_load_env ''m'' (default_config ''m.gguf'')]
      (SimpleModelManager_ctor 1 10) = Some (example_manager 1)
   \<and> memory_limit_bytes (example_manager 1) = 1048576
   \<and> memory_usage_bytes (metrics (example_manager 1)) = 2000000
   \<and> models (example_manager 1) ''n'' = None
   \<and> LoadModel example_load_env ''n'' (default_config ''m.gguf'') (example_manager 1)
        = (MemoryLimitReached, example_manager 1)"
proof -
  have r: "run_mgr [OpLoadModel example_load_env ''m'' (default_config ''m.gguf'')]
      (SimpleModelManager_ctor 1 10) = Some (example_manager 1)"
    by (simp add: example_manager_def)
  have l: "memory_limit_bytes (example_manager 1) = 1048576"
    by (simp add: mgr_defs)
  have u: "memory_usage_bytes (metrics (example_manager 1)) = 2000000"
    by (simp add: mgr_defs)
  have h1: "memory_limit_bytes (example_manager 1) \<noteq> 0"
    by (simp add: l)
  have h2: "memory_limit_bytes (example_manager 1) \<le> memory_usage_bytes (metrics (example_manager 1))"
    by (simp add: l u)
  have h3: "models (example_manager 1) ''n'' = None"
    by (simp add: mgr_defs)
  from load_refused_at_memory_limit [OF r h1 h2 h3, of example_load_env "default_config ''m.gguf''"]
    r l u h3
  show ?thesis by blast
qed

lemma unload_never_returns:
  assumes "models s name = Some m" and "0 < reference_count m"
    and "\<forall>k. later k = reference_count m"
  shows "UnloadModel later observe name s = None"
  using assms by (simp add: UnloadModel_def wait_references_const)

lemma unload_returns_without_reference:
  assumes "models s name = Some m" and "reference_count m = 0"
  shows "UnloadModel later observe name s =
           Some (True, drain_wait observe 0,
                 s\<lparr>metrics := (metrics s)\<lparr>memory_usage_bytes :=
                       memory_usage_bytes (metrics s) - model_memory_usage_bytes m\<rparr>,
                   models := (models s)(name := None)\<rparr>)"
  using assms by (simp add: UnloadModel_def wait_references_zero del: drain_wait.simps)

lemma unload_unknown_name:
  "models s name = None \<Longrightarrow> UnloadModel later observe name s = Some (False, 0, s)"
  by (simp add: UnloadModel_def)

text \<open>
  Claim C5 says \<open>UnloadModel\<close> on a model with outstanding references completes once
  they are released. The code polls the count while it holds \<open>models_mutex_\<close>, which
  \<open>ReleaseModelReference\<close> needs, so no reference can be released during the call and
  every read returns the count found at entry: with two handles outstanding the call
  never returns. It returns true only when the count is zero at entry, as it is after
  both handles are released first.
\<close>

theorem unload_with_reference_never_returns:
  "(\<exists>m. models two_references ''m'' = Some m \<and> reference_count m = 2)
   \<and> UnloadModel (\<lambda>k. 2)
        (\<lambda>k. (ContextPool_ctor (Some 1) (default_config ''m.gguf'') 10,
              ContextPool_ctor (Some 1) (default_config ''m.gguf'') 10))
        ''m'' two_references = None
   \<and> (\<exists>slept s'. UnloadModel (\<lambda>k. 0)
        (\<lambda>k. (ContextPool_ctor (Some 1) (default_config ''m.gguf'') 10,
              ContextPool_ctor (Some 1) (default_config ''m.gguf'') 10))
        ''m'' (ReleaseModelReference ''m'' (ReleaseModelReference ''m'' two_references))
          = Some (True, slept, s') \<and> models s' ''m'' = None)"
proof -
  let ?O = "\<lambda>k::nat. (ContextPool_ctor (Some 1) (default_config ''m.gguf'') 10,
                      ContextPool_ctor (Some 1) (default_config ''m.gguf'') 10)"
  obtain m where m: "models two_references ''m'' = Some m" and rc: "reference_count m = 2"
    by (simp add: two_references_def mgr_defs Let_def)
  have c: "\<forall>k. (\<lambda>k::nat. 2::64 word) k = reference_count m"
    by (simp add: rc)
  have pos: "0 < reference_count m"
    by (simp add: rc)
  have p2: "UnloadModel (\<lambda>k. 2) ?O ''m'' two_references = None"
    using m pos c by (rule unload_never_returns)
  have p3: "\<exists>slept s'. UnloadModel (\<lambda>k. 0) ?O ''m''
        (ReleaseModelReference ''m'' (ReleaseModelReference ''m'' two_references))
          = Some (True, slept, s') \<and> models s' ''m'' = None"
    using m rc
    by (simp add: UnloadModel_def ReleaseModelReference_def update_model_def
        wait_references_zero del: drain_wait.simps)
  from m rc p2 p3 show ?thesis by blast
qed

end
